theory Spec2Isabelle
  imports Main "HOL-Library.Word"
begin

section \<open>Bytes, slices and struct.unpack\<close>

text \<open>
  A TRK 2-34 file is read whole into a Python \<^verbatim>\<open>bytes\<close> object. Bytes are 8-bit words,
  offsets and lengths are Python's unbounded non-negative integers (\<^typ>\<open>nat\<close>).
\<close>

type_synonym byte = "8 word"
type_synonym bytes = "byte list"

text \<open>
  The exceptions the modelled code can raise. \<open>AttributeError t a\<close> is the failed access of
  attribute \<open>a\<close> on an object of type \<open>t\<close>; \<open>ComponentError\<close> stands for any exception a
  decoder of the \<^verbatim>\<open>components\<close> package raises.
\<close>

datatype error =
    StructError
  | AttributeError string string
  | ValueError
  | OverflowError
  | KeyError
  | IndexError
  | UnicodeDecodeError
  | FileNotFoundError
  | NameError string
  | ComponentError string

text \<open>
  \<^verbatim>\<open>xs[i:j]\<close> for non-negative \<open>i\<close>, \<open>j\<close>: Python clips the slice to the sequence, it never
  raises.
\<close>

definition py_slice :: "'a list \<Rightarrow> nat \<Rightarrow> nat \<Rightarrow> 'a list" where
  "py_slice xs i j = take (j - i) (drop i xs)"

text \<open>The value of a big-endian unsigned field.\<close>

definition be_nat :: "bytes \<Rightarrow> nat" where
  "be_nat bs = foldl (\<lambda>acc x. acc * 256 + unat x) 0 bs"

text \<open>
  \<^verbatim>\<open>struct.unpack('>Q', bs)[0]\<close>: raises \<^verbatim>\<open>struct.error\<close> unless the buffer has exactly
  8 bytes.
\<close>

definition unpack_Q :: "bytes \<Rightarrow> error + nat" where
  "unpack_Q bs = (if length bs = 8 then Inr (be_nat bs) else Inl StructError)"

section \<open>Reader.sfdu\_index: the framing indexer\<close>

text \<open>
  \<^verbatim>\<open>
   def sfdu_index(self, binarystring):
      N = len(self.binarydata)
      ind = [0]
      next_ind = 0
      offset = 0
      while(next_ind < N):
         sfdu_length = struct.unpack('>Q', self.binarydata[offset+12:offset+20])[0]
         next_ind = sfdu_length + 20 + ind[-1]
         offset = next_ind
         ind.append(next_ind)
      return ind
  \<close>
  The loop state is \<open>(ind, next_ind, offset)\<close>. \<^verbatim>\<open>ind[-1]\<close> raises IndexError on an empty
  list. Both callers pass \<^verbatim>\<open>self.binarydata\<close> as \<^verbatim>\<open>binarystring\<close>.
\<close>

function sfdu_index_loop :: "bytes \<Rightarrow> nat list \<Rightarrow> nat \<Rightarrow> nat \<Rightarrow> error + nat list" where
  "sfdu_index_loop binarydata ind next_ind offset =
     (if next_ind < length binarydata then
        (case unpack_Q (py_slice binarydata (offset + 12) (offset + 20)) of
           Inl e \<Rightarrow> Inl e
         | Inr sfdu_length \<Rightarrow>
             (if ind = [] then Inl IndexError
              else let next_ind' = sfdu_length + 20 + last ind
                   in sfdu_index_loop binarydata (ind @ [next_ind']) next_ind' next_ind'))
      else Inr ind)"
  by pat_completeness auto
termination
  by (relation "measure (\<lambda>(b, ind, n, off).
        if ind \<noteq> [] \<and> last ind = n then 2 * (length b - n) else 2 * length b + 1)")
     (auto split: if_splits)

definition sfdu_index :: "bytes \<Rightarrow> error + nat list" where
  "sfdu_index binarydata = sfdu_index_loop binarydata [0] 0 0"

text \<open>
  The boundary list as the specification words it: the first boundary is 0; at a current
  boundary below the buffer length the 8-byte big-endian length field at offset 12..20 of
  the record is read, and the next boundary is the current one plus the declared length
  plus 20; the list ends with the first boundary that reaches or exceeds the buffer length.
\<close>

fun chain_from :: "bytes \<Rightarrow> nat \<Rightarrow> nat list \<Rightarrow> bool" where
  "chain_from b cur [] = (length b \<le> cur)"
| "chain_from b cur (nxt # rest) =
     (cur < length b \<and> cur + 20 \<le> length b \<and>
      nxt = cur + be_nat (py_slice b (cur + 12) (cur + 20)) + 20 \<and>
      chain_from b nxt rest)"

definition boundary_chain :: "bytes \<Rightarrow> nat list \<Rightarrow> bool" where
  "boundary_chain b ind =
     (case ind of [] \<Rightarrow> False | first # rest \<Rightarrow> first = 0 \<and> chain_from b 0 rest)"

text \<open>
  The byte ranges \<^verbatim>\<open>binarydata[ ind[i]:ind[i+1] ]\<close> for \<^verbatim>\<open>i in range(len(ind) - 1)\<close>, as
  \<^verbatim>\<open>Reader.decode\<close>, \<^verbatim>\<open>Reader.get_data_types\<close> and \<^verbatim>\<open>Info.quicklook\<close> cut them.
\<close>

definition frames :: "bytes \<Rightarrow> nat list \<Rightarrow> bytes list" where
  "frames b ind = map (\<lambda>i. py_slice b (ind ! i) (ind ! (i + 1))) [0..<length ind - 1]"

section \<open>Text output\<close>

text \<open>
  Standard output is the list of the lines printed so far. \<^verbatim>\<open>'%d' % n\<close> and
  \<^verbatim>\<open>'%i' % n\<close> print an integer in decimal.
\<close>

definition digit_char :: "nat \<Rightarrow> char" where
  "digit_char d = ''0123456789'' ! d"

fun show_nat :: "nat \<Rightarrow> string" where
  "show_nat n = (if n < 10 then [digit_char n] else show_nat (n div 10) @ [digit_char (n mod 10)])"

definition show_int :: "int \<Rightarrow> string" where
  "show_int i = (if i < 0 then CHR ''-'' # show_nat (nat (- i)) else show_nat (nat i))"

section \<open>The components package\<close>

text \<open>
  \<^verbatim>\<open>SFDU.py\<close> imports the classes \<^verbatim>\<open>SFDULabel\<close>, \<^verbatim>\<open>SFDUAggCHDO\<close>, \<^verbatim>\<open>PrimaryCHDO\<close>, the five
  secondary CHDO classes and the eighteen tracking CHDO classes from the package
  \<^verbatim>\<open>trk234.components\<close>, which is not part of the sources at hand. The decoders of these classes
  are therefore parameters of the model: each is a function of the record's bytes that either
  raises or yields the decoded object. Of a label only \<^verbatim>\<open>data_description_id\<close> and the declared
  length are used by the code, of a primary CHDO only \<^verbatim>\<open>format_code\<close>. Secondary and tracking
  CHDOs are accessed by attribute name (also through \<^verbatim>\<open>hasattr\<close>), so they are attribute
  dictionaries; numeric attributes are Python integers.
\<close>

type_synonym chdo = "string \<rightharpoonup> int"

record SFDULabel =
  data_description_id :: string
  sfdu_length :: nat

record PrimaryCHDO =
  format_code :: int

datatype sec_class = UplinkCHDO | DownlinkCHDO | DerivedCHDO | InferometricCHDO | FilteredCHDO

datatype trk_class =
    UplinkCarrierPhaseTrackingCHDO | DownlinkCarrierPhaseTrackingCHDO
  | UplinkSequentialRangingPhaseTrackingCHDO | DownlinkSequentialRangingPhaseTrackingCHDO
  | UplinkPnRangingPhaseTrackingCHDO | DownlinkPnRangingPhaseTrackingCHDO
  | DopplerCountTrackingCHDO | SequentialRangeTrackingCHDO | AngleTrackingCHDO
  | RampTrackingCHDO | VlbiCHDO | DrvidTrackingCHDO | SmoothedNoiseTrackingCHDO
  | AllanDeviationTrackingCHDO | PnRangeTrackingCHDO | ToneRangeTrackingCHDO
  | CarrierFrequencyObservableTrackingCHDO | TotalCountPhaseObservableTrackingCHDO

record components =
  SFDULabel_new :: SFDULabel
  SFDULabel_decode :: "bytes \<Rightarrow> error + SFDULabel"
  SFDUAggCHDO_new :: chdo
  SFDUAggCHDO_decode :: "bytes \<Rightarrow> error + chdo"
  PrimaryCHDO_new :: PrimaryCHDO
  PrimaryCHDO_decode :: "bytes \<Rightarrow> error + PrimaryCHDO"
  SecondaryCHDO_decode :: "sec_class \<Rightarrow> bytes \<Rightarrow> error + chdo"
  TrackingCHDO_decode :: "trk_class \<Rightarrow> bytes \<Rightarrow> error + chdo"

section \<open>SFDU: one record\<close>

record SFDU =
  binarydata :: bytes
  number :: nat
  label :: SFDULabel
  agg_chdo :: chdo
  pri_chdo :: PrimaryCHDO
  sec_chdo :: "chdo option"
  trk_chdo :: "chdo option"
  is_decoded :: bool

text \<open>\<^verbatim>\<open>SFDU.__init__\<close>.\<close>

definition SFDU_new :: "components \<Rightarrow> SFDU" where
  "SFDU_new K =
     \<lparr>binarydata = [], number = 0, label = SFDULabel_new K, agg_chdo = SFDUAggCHDO_new K,
      pri_chdo = PrimaryCHDO_new K, sec_chdo = None, trk_chdo = None, is_decoded = False\<rparr>"

text \<open>
  The class selected by the \<^verbatim>\<open>if\<close>/\<^verbatim>\<open>elif\<close> chain on \<^verbatim>\<open>self.label.data_description_id\<close>, and
  the one selected by the chain on \<^verbatim>\<open>self.pri_chdo.format_code\<close>; \<open>None\<close> is the \<^verbatim>\<open>else\<close>
  branch.
\<close>

definition select_sec_class :: "string \<Rightarrow> sec_class option" where
  "select_sec_class d =
     (if d = ''C123'' then Some UplinkCHDO
      else if d = ''C124'' then Some DownlinkCHDO
      else if d = ''C125'' then Some DerivedCHDO
      else if d = ''C126'' then Some InferometricCHDO
      else if d = ''C127'' then Some FilteredCHDO
      else None)"

definition select_trk_class :: "int \<Rightarrow> trk_class option" where
  "select_trk_class c =
     (if c = 0 then Some UplinkCarrierPhaseTrackingCHDO
      else if c = 1 then Some DownlinkCarrierPhaseTrackingCHDO
      else if c = 2 then Some UplinkSequentialRangingPhaseTrackingCHDO
      else if c = 3 then Some DownlinkSequentialRangingPhaseTrackingCHDO
      else if c = 4 then Some UplinkPnRangingPhaseTrackingCHDO
      else if c = 5 then Some DownlinkPnRangingPhaseTrackingCHDO
      else if c = 6 then Some DopplerCountTrackingCHDO
      else if c = 7 then Some SequentialRangeTrackingCHDO
      else if c = 8 then Some AngleTrackingCHDO
      else if c = 9 then Some RampTrackingCHDO
      else if c = 10 then Some VlbiCHDO
      else if c = 11 then Some DrvidTrackingCHDO
      else if c = 12 then Some SmoothedNoiseTrackingCHDO
      else if c = 13 then Some AllanDeviationTrackingCHDO
      else if c = 14 then Some PnRangeTrackingCHDO
      else if c = 15 then Some ToneRangeTrackingCHDO
      else if c = 16 then Some CarrierFrequencyObservableTrackingCHDO
      else if c = 17 then Some TotalCountPhaseObservableTrackingCHDO
      else None)"

text \<open>The two diagnostics of \<^verbatim>\<open>SFDU.decode\<close>.\<close>

definition unknown_secondary_warning :: "nat \<Rightarrow> string \<Rightarrow> string" where
  "unknown_secondary_warning n d =
     ''SFDU '' @ show_nat n @ '': Warning: Unknown secondary CHDO type '' @ d @ ''. Skipping...''"

definition unknown_tracking_warning :: "nat \<Rightarrow> int \<Rightarrow> string" where
  "unknown_tracking_warning n c =
     ''SFDU '' @ show_nat n @ '': Warning: Unknown tracking CHDO type '' @ show_int c
       @ ''. Skipping...''"

text \<open>
  A stage of \<^verbatim>\<open>SFDU.decode\<close> raises, returns from \<^verbatim>\<open>decode\<close> early, or falls through to the
  next stage.
\<close>

datatype 'a outcome = Raised error | Returned 'a | Continue 'a

text \<open>The label, aggregation and primary stages (lines 149 to 160).\<close>

definition decode_headers :: "components \<Rightarrow> SFDU \<Rightarrow> bool \<Rightarrow> bool \<Rightarrow> bool \<Rightarrow> error + SFDU" where
  "decode_headers K self lab agg pri =
     (case (if lab then
              (case SFDULabel_decode K (binarydata self) of
                 Inl e \<Rightarrow> Inl e | Inr l \<Rightarrow> Inr (self\<lparr>label := l\<rparr>))
            else Inr self) of
        Inl e \<Rightarrow> Inl e
      | Inr s1 \<Rightarrow>
     (case (if agg then
              (case SFDUAggCHDO_decode K (binarydata s1) of
                 Inl e \<Rightarrow> Inl e | Inr a \<Rightarrow> Inr (s1\<lparr>agg_chdo := a\<rparr>))
            else Inr s1) of
        Inl e \<Rightarrow> Inl e
      | Inr s2 \<Rightarrow>
        (if pri then
           (case PrimaryCHDO_decode K (binarydata s2) of
              Inl e \<Rightarrow> Inl e | Inr p \<Rightarrow> Inr (s2\<lparr>pri_chdo := p\<rparr>))
         else Inr s2)))"

text \<open>The secondary stage (lines 163 to 181).\<close>

definition decode_secondary ::
  "components \<Rightarrow> SFDU \<Rightarrow> bool \<Rightarrow> string list \<Rightarrow> SFDU outcome \<times> string list" where
  "decode_secondary K self sec out =
     (if sec then
        (case select_sec_class (data_description_id (label self)) of
           None \<Rightarrow>
             (Returned (self\<lparr>is_decoded := False\<rparr>),
              out @ [unknown_secondary_warning (number self) (data_description_id (label self))])
         | Some c \<Rightarrow>
             (case SecondaryCHDO_decode K c (binarydata self) of
                Inl e \<Rightarrow> (Raised e, out)
              | Inr h \<Rightarrow> (Continue (self\<lparr>sec_chdo := Some h\<rparr>), out)))
      else (Continue self, out))"

text \<open>The tracking stage (lines 184 to 229).\<close>

definition decode_tracking ::
  "components \<Rightarrow> SFDU \<Rightarrow> bool \<Rightarrow> string list \<Rightarrow> SFDU outcome \<times> string list" where
  "decode_tracking K self trk out =
     (if trk then
        (case select_trk_class (format_code (pri_chdo self)) of
           None \<Rightarrow>
             (Returned (self\<lparr>is_decoded := False\<rparr>),
              out @ [unknown_tracking_warning (number self) (format_code (pri_chdo self))])
         | Some c \<Rightarrow>
             (case TrackingCHDO_decode K c (binarydata self) of
                Inl e \<Rightarrow> (Raised e, out)
              | Inr t \<Rightarrow> (Continue (self\<lparr>trk_chdo := Some t\<rparr>), out)))
      else (Continue self, out))"

text \<open>
  \<^verbatim>\<open>SFDU.decode(self, binarystring, label, agg_chdo, pri_chdo, sec_chdo, trk_chdo)\<close>: the
  object after the call, or the exception, together with the output.
\<close>

definition SFDU_decode ::
  "components \<Rightarrow> SFDU \<Rightarrow> bytes \<Rightarrow> bool \<Rightarrow> bool \<Rightarrow> bool \<Rightarrow> bool \<Rightarrow> bool \<Rightarrow> string list
     \<Rightarrow> (error + SFDU) \<times> string list" where
  "SFDU_decode K self binarystring lab agg pri sec trk out =
     (case decode_headers K (self\<lparr>binarydata := binarystring\<rparr>) lab agg pri of
        Inl e \<Rightarrow> (Inl e, out)
      | Inr s3 \<Rightarrow>
          (case decode_secondary K s3 sec out of
             (Raised e, out1) \<Rightarrow> (Inl e, out1)
           | (Returned s, out1) \<Rightarrow> (Inr s, out1)
           | (Continue s4, out1) \<Rightarrow>
               (case decode_tracking K s4 trk out1 of
                  (Raised e, out2) \<Rightarrow> (Inl e, out2)
                | (Returned s, out2) \<Rightarrow> (Inr s, out2)
                | (Continue s5, out2) \<Rightarrow> (Inr (s5\<lparr>is_decoded := True\<rparr>), out2))))"

section \<open>Reader: one file\<close>

record Reader =
  filename :: string
  sfdu_list :: "SFDU list"
  Reader_is_decoded :: bool
  Reader_binarydata :: bytes
  index :: "nat list"

text \<open>\<^verbatim>\<open>filename.split('/')[-1]\<close>: what follows the last slash.\<close>

definition last_path_component :: "string \<Rightarrow> string" where
  "last_path_component s = rev (takeWhile (\<lambda>c. c \<noteq> CHR ''/'') (rev s))"

text \<open>
  \<^verbatim>\<open>Reader.__init__\<close> on a file system that maps a path to the file's content.
\<close>

definition Reader_new :: "(string \<rightharpoonup> bytes) \<Rightarrow> string \<Rightarrow> error + Reader" where
  "Reader_new fs fname =
     (case fs fname of
        None \<Rightarrow> Inl FileNotFoundError
      | Some data \<Rightarrow>
          (case sfdu_index data of
             Inl e \<Rightarrow> Inl e
           | Inr ind \<Rightarrow>
               Inr \<lparr>filename = last_path_component fname, sfdu_list = [],
                    Reader_is_decoded = False, Reader_binarydata = data, index = ind\<rparr>))"

text \<open>
  The loop of \<^verbatim>\<open>Reader.decode\<close> over \<^verbatim>\<open>range(n)\<close>, with the progress display off (its class
  is not part of the sources at hand, and no caller modelled here turns it on).
\<close>

fun decode_loop ::
  "components \<Rightarrow> bytes \<Rightarrow> nat list \<Rightarrow> bool \<Rightarrow> bool \<Rightarrow> bool \<Rightarrow> bool \<Rightarrow> bool \<Rightarrow> nat list
     \<Rightarrow> SFDU list \<Rightarrow> string list \<Rightarrow> (error + SFDU list) \<times> string list" where
  "decode_loop K b ind lab agg pri sec trk [] sfdus out = (Inr sfdus, out)"
| "decode_loop K b ind lab agg pri sec trk (i # rest) sfdus out =
     (case SFDU_decode K ((SFDU_new K)\<lparr>number := i\<rparr>) (py_slice b (ind ! i) (ind ! (i + 1)))
             lab agg pri sec trk out of
        (Inl e, out1) \<Rightarrow> (Inl e, out1)
      | (Inr sfdu, out1) \<Rightarrow> decode_loop K b ind lab agg pri sec trk rest (sfdus @ [sfdu]) out1)"

definition Reader_decode ::
  "components \<Rightarrow> Reader \<Rightarrow> bool \<Rightarrow> bool \<Rightarrow> bool \<Rightarrow> bool \<Rightarrow> bool \<Rightarrow> string list
     \<Rightarrow> (error + Reader) \<times> string list" where
  "Reader_decode K self lab agg pri sec trk out =
     (case decode_loop K (Reader_binarydata self) (index self) lab agg pri sec trk
             [0..<length (index self) - 1] [] out of
        (Inl e, out1) \<Rightarrow> (Inl e, out1)
      | (Inr sfdus, out1) \<Rightarrow> (Inr (self\<lparr>sfdu_list := sfdus, Reader_is_decoded := True\<rparr>), out1))"

text \<open>
  \<^verbatim>\<open>struct.unpack('>B', bs)[0]\<close>, and \<^verbatim>\<open>Reader.get_data_types\<close>, which re-runs the indexer
  and reads byte 31 of every frame.
\<close>

definition unpack_B :: "bytes \<Rightarrow> error + int" where
  "unpack_B bs = (case bs of [x] \<Rightarrow> Inr (int (unat x)) | _ \<Rightarrow> Inl StructError)"

fun get_data_types_loop :: "bytes list \<Rightarrow> int list \<Rightarrow> error + int list" where
  "get_data_types_loop [] fc = Inr fc"
| "get_data_types_loop (r # rs) fc =
     (case unpack_B (py_slice r 31 32) of
        Inl e \<Rightarrow> Inl e
      | Inr c \<Rightarrow> get_data_types_loop rs (fc @ [c]))"

definition get_data_types :: "Reader \<Rightarrow> error + int list" where
  "get_data_types self =
     (case sfdu_index (Reader_binarydata self) of
        Inl e \<Rightarrow> Inl e
      | Inr j \<Rightarrow> get_data_types_loop (frames (Reader_binarydata self) j) [])"

section \<open>Exceptions in sequence\<close>

text \<open>
  Python evaluates statements and arguments in order and an exception ends the evaluation:
  \<open>bindE m f\<close> runs \<open>f\<close> on the value of \<open>m\<close> unless \<open>m\<close> raised, and \<open>mapE f xs\<close> is the
  list comprehension \<^verbatim>\<open>[f(x) for x in xs]\<close>.
\<close>

definition bindE :: "error + 'a \<Rightarrow> ('a \<Rightarrow> error + 'b) \<Rightarrow> error + 'b" where
  "bindE m f = (case m of Inl e \<Rightarrow> Inl e | Inr v \<Rightarrow> f v)"

fun mapE :: "('a \<Rightarrow> error + 'b) \<Rightarrow> 'a list \<Rightarrow> error + 'b list" where
  "mapE f [] = Inr []"
| "mapE f (x # xs) =
     (case f x of
        Inl e \<Rightarrow> Inl e
      | Inr y \<Rightarrow> (case mapE f xs of Inl e \<Rightarrow> Inl e | Inr ys \<Rightarrow> Inr (y # ys)))"

section \<open>datetime and timedelta\<close>

text \<open>
  A \<^verbatim>\<open>datetime\<close> is the number of microseconds since 0001-01-01T00:00:00 in the proleptic
  Gregorian calendar, a \<^verbatim>\<open>timedelta\<close> a number of microseconds. The constructor
  \<^verbatim>\<open>datetime(year=y, month=1, day=1)\<close> raises OverflowError for a year that does not fit a C
  int and ValueError for a year outside 1..9999; \<^verbatim>\<open>timedelta\<close> raises OverflowError when the
  normalised number of days exceeds 999999999 in magnitude; the sum raises OverflowError
  outside the range of \<^verbatim>\<open>datetime\<close>. The time fields of a CHDO are integers here
  (seconds of day in whole seconds).
\<close>

type_synonym datetime = int

definition days_before_year :: "int \<Rightarrow> int" where
  "days_before_year y = 365 * (y - 1) + (y - 1) div 4 - (y - 1) div 100 + (y - 1) div 400"

definition usec_per_day :: int where
  "usec_per_day = 86400000000"

definition datetime_jan1 :: "int \<Rightarrow> error + datetime" where
  "datetime_jan1 year =
     (if year < - (2 ^ 31) \<or> 2 ^ 31 \<le> year then Inl OverflowError
      else if 1 \<le> year \<and> year \<le> 9999 then Inr (days_before_year year * usec_per_day)
      else Inl ValueError)"

definition timedelta :: "int \<Rightarrow> int \<Rightarrow> int \<Rightarrow> error + int" where
  "timedelta days seconds milliseconds =
     (let us = ((days * 86400 + seconds) * 1000 + milliseconds) * 1000
      in if \<bar>us div usec_per_day\<bar> \<le> 999999999 then Inr us else Inl OverflowError)"

definition datetime_add :: "datetime \<Rightarrow> int \<Rightarrow> error + datetime" where
  "datetime_add d td =
     (if 0 \<le> d + td \<and> d + td < days_before_year 10000 * usec_per_day then Inr (d + td)
      else Inl OverflowError)"

section \<open>SFDU accessors\<close>

text \<open>
  \<^verbatim>\<open>self.sec_chdo.a\<close>: AttributeError when \<^verbatim>\<open>sec_chdo\<close> is \<^verbatim>\<open>None\<close> or the object has no
  attribute \<open>a\<close>; \<^verbatim>\<open>hasattr(self.sec_chdo, a)\<close>.
\<close>

definition getattr :: "chdo option \<Rightarrow> string \<Rightarrow> error + int" where
  "getattr obj a =
     (case obj of
        None \<Rightarrow> Inl (AttributeError ''NoneType'' a)
      | Some c \<Rightarrow> (case c a of None \<Rightarrow> Inl (AttributeError ''CHDO'' a) | Some v \<Rightarrow> Inr v))"

definition hasattr :: "chdo option \<Rightarrow> string \<Rightarrow> bool" where
  "hasattr obj a = (case obj of None \<Rightarrow> False | Some c \<Rightarrow> c a \<noteq> None)"

text \<open>
  \<^verbatim>\<open>
   def timestamp(self):
      return datetime(year=self.sec_chdo.year, month=1, day=1) + \
                timedelta(days=self.sec_chdo.doy - 1, seconds=self.sec_chdo.sec )
  \<close>
\<close>

definition timestamp :: "SFDU \<Rightarrow> error + datetime" where
  "timestamp self =
     bindE (getattr (sec_chdo self) ''year'') (\<lambda>year.
     bindE (datetime_jan1 year) (\<lambda>d.
     bindE (getattr (sec_chdo self) ''doy'') (\<lambda>doy.
     bindE (getattr (sec_chdo self) ''sec'') (\<lambda>sec.
     bindE (timedelta (doy - 1) sec 0) (\<lambda>td.
     datetime_add d td)))))"

text \<open>
  \<^verbatim>\<open>
   def last_modified(self):
      return datetime(year=1958, month=1, day=1) + \
                timedelta(days=self.sec_chdo.mod_day, milliseconds=self.sec_chdo.mod_msec)
  \<close>
\<close>

definition last_modified :: "SFDU \<Rightarrow> error + datetime" where
  "last_modified self =
     bindE (datetime_jan1 1958) (\<lambda>d.
     bindE (getattr (sec_chdo self) ''mod_day'') (\<lambda>mod_day.
     bindE (getattr (sec_chdo self) ''mod_msec'') (\<lambda>mod_msec.
     bindE (timedelta mod_day 0 mod_msec) (\<lambda>td.
     datetime_add d td))))"

text \<open>
  \<^verbatim>\<open>
   def tracking_mode(self):
      if self.label.data_description_id != 'C123':
         if self.sec_chdo.prdx_mode == 4:
            return 'Invalid'
         elif self.sec_chdo.prdx_mode == 3:
            return '3W/%i' % self.sec_chdo.ul_prdx_stn
         elif self.sec_chdo.prdx_mode == 2:
            return '2W'
         elif self.sec_chdo.prdx_mode == 1:
            return '1W'
         elif self.sec_chdo.prdx_mode == 0:
            return 'None'
      else:
         return 'N/A'
  \<close>
  A mode outside 0..4 falls off the end of the function, which returns Python's \<^verbatim>\<open>None\<close>
  (here \<open>Inr None\<close>). Reading an attribute has no effect, so the repeated reads of
  \<^verbatim>\<open>prdx_mode\<close> are one read.
\<close>

definition tracking_mode :: "SFDU \<Rightarrow> error + string option" where
  "tracking_mode self =
     (if data_description_id (label self) \<noteq> ''C123'' then
        bindE (getattr (sec_chdo self) ''prdx_mode'') (\<lambda>prdx_mode.
          if prdx_mode = 4 then Inr (Some ''Invalid'')
          else if prdx_mode = 3 then
            bindE (getattr (sec_chdo self) ''ul_prdx_stn'') (\<lambda>ul_prdx_stn.
              Inr (Some (''3W/'' @ show_int ul_prdx_stn)))
          else if prdx_mode = 2 then Inr (Some ''2W'')
          else if prdx_mode = 1 then Inr (Some ''1W'')
          else if prdx_mode = 0 then Inr (Some ''None'')
          else Inr None)
      else Inr (Some ''N/A''))"

section \<open>util.py\<close>

definition data_descriptions_keys :: "string list" where
  "data_descriptions_keys = [''C123'', ''C124'', ''C125'', ''C126'', ''C127'']"

definition format_codes_keys :: "int list" where
  "format_codes_keys = map int [0..<18]"

definition bands :: "int \<rightharpoonup> string" where
  "bands = map_of [(0, ''Unknown''), (1, ''S''), (2, ''X''), (3, ''Ka''), (4, ''Ku''), (5, ''L'')]"

text \<open>
  \<^verbatim>\<open>
  def types(sfdu_list):
     n = []
     for i in range(0,18):
        n.append( len([ s for s in sfdu_list if s.pri_chdo.format_code == i ]) )
     return n
  \<close>
\<close>

definition types :: "SFDU list \<Rightarrow> nat list" where
  "types sfdus = map (\<lambda>i. length (filter (\<lambda>s. format_code (pri_chdo s) = int i) sfdus)) [0..<18]"

section \<open>Info: the two aggregation algorithms\<close>

text \<open>
  The attributes of \<^verbatim>\<open>Info\<close>. The lists built with \<^verbatim>\<open>list(set(...))\<close> come in no
  defined order and without duplicates: they are sets here.
\<close>

record Info =
  numRecords :: nat
  dataTypes :: "nat list"
  numberDataTypes :: "nat list"
  startTime :: "datetime option"
  endTime :: "datetime option"
  lastModified :: "datetime option"
  spacecraftId :: "int set"
  dnlinkDssId :: "int set"
  uplinkDssId :: "int set"
  dnlinkBand :: "string set"
  uplinkBand :: "string set"
  trackingMode :: "string option set"
  dataDescriptionIds :: "string set"
  dopplerCountTime :: "int set"
  Info_filename :: "string option"

text \<open>The initial attribute values of \<^verbatim>\<open>Info.__init__\<close>.\<close>

definition Info_initial :: Info where
  "Info_initial =
     \<lparr>numRecords = 0, dataTypes = [], numberDataTypes = [], startTime = None, endTime = None,
      lastModified = None, spacecraftId = {}, dnlinkDssId = {}, uplinkDssId = {},
      dnlinkBand = {}, uplinkBand = {}, trackingMode = {}, dataDescriptionIds = {},
      dopplerCountTime = {}, Info_filename = None\<rparr>"

text \<open>\<^verbatim>\<open>min(xs)\<close> and \<^verbatim>\<open>max(xs)\<close> raise ValueError on an empty list.\<close>

definition py_min :: "int list \<Rightarrow> error + int" where
  "py_min xs = (case xs of [] \<Rightarrow> Inl ValueError | x # rest \<Rightarrow> Inr (fold min rest x))"

definition py_max :: "int list \<Rightarrow> error + int" where
  "py_max xs = (case xs of [] \<Rightarrow> Inl ValueError | x # rest \<Rightarrow> Inr (fold max rest x))"

text \<open>\<^verbatim>\<open>[ i for i, e in enumerate( numberDataTypes ) if e != 0 ]\<close>.\<close>

definition nonzero_positions :: "nat list \<Rightarrow> nat list" where
  "nonzero_positions n = filter (\<lambda>i. n ! i \<noteq> 0) [0..<length n]"

text \<open>
  \<^verbatim>\<open>[ bands[i] for i in list(set( xs )) ]\<close>: KeyError when some code is not a key of
  \<^verbatim>\<open>bands\<close>.
\<close>

definition lookup_bands :: "int list \<Rightarrow> error + string set" where
  "lookup_bands xs =
     (if list_all (\<lambda>i. bands i \<noteq> None) xs then Inr (set (map (\<lambda>i. the (bands i)) xs))
      else Inl KeyError)"

text \<open>
  The loop of \<^verbatim>\<open>get_info\<close> over \<^verbatim>\<open>f.sfdu_list\<close> (lines 189 to 213); the accumulator is
  \<open>(ul_dss_id, dl_dss_id, ul_band, dl_band, trk_mode)\<close>.
\<close>

type_synonym station_lists = "int list \<times> int list \<times> int list \<times> int list \<times> string option list"

fun get_info_loop :: "SFDU list \<Rightarrow> station_lists \<Rightarrow> error + station_lists" where
  "get_info_loop [] acc = Inr acc"
| "get_info_loop (x # xs) (ul_dss_id, dl_dss_id, ul_band, dl_band, trk_mode) =
     (if data_description_id (label x) = ''C123'' then
        bindE (getattr (sec_chdo x) ''ul_dss_id'') (\<lambda>a.
        bindE (getattr (sec_chdo x) ''ul_band'') (\<lambda>b.
        get_info_loop xs (ul_dss_id @ [a], dl_dss_id, ul_band @ [b], dl_band, trk_mode)))
      else if data_description_id (label x) = ''C124'' then
        bindE (getattr (sec_chdo x) ''dl_dss_id'') (\<lambda>a.
        bindE (getattr (sec_chdo x) ''dl_band'') (\<lambda>b.
        bindE (tracking_mode x) (\<lambda>m.
        get_info_loop xs (ul_dss_id, dl_dss_id @ [a], ul_band, dl_band @ [b], trk_mode @ [m]))))
      else if data_description_id (label x) = ''C125'' then
        bindE (getattr (sec_chdo x) ''dl_dss_id'') (\<lambda>a.
        bindE (tracking_mode x) (\<lambda>m.
        get_info_loop xs (ul_dss_id, dl_dss_id @ [a], ul_band, dl_band, trk_mode @ [m])))
      else if data_description_id (label x) = ''C126'' then
        bindE (getattr (sec_chdo x) ''ul_dss_id'') (\<lambda>a.
        bindE (getattr (sec_chdo x) ''dl_dss_id'') (\<lambda>b.
        bindE (getattr (sec_chdo x) ''dl_dss_id_2'') (\<lambda>c.
        bindE (getattr (sec_chdo x) ''dl_band'') (\<lambda>d.
        bindE (getattr (sec_chdo x) ''ul_band'') (\<lambda>e.
        bindE (tracking_mode x) (\<lambda>m.
        get_info_loop xs
          (ul_dss_id @ [a], dl_dss_id @ [b, c], ul_band @ [e], dl_band @ [d], trk_mode @ [m])))))))
      else if data_description_id (label x) = ''C127'' then
        bindE (getattr (sec_chdo x) ''dl_dss_id'') (\<lambda>a.
        bindE (getattr (sec_chdo x) ''dl_band'') (\<lambda>b.
        bindE (tracking_mode x) (\<lambda>m.
        get_info_loop xs (ul_dss_id, dl_dss_id @ [a], ul_band, dl_band @ [b], trk_mode @ [m]))))
      else get_info_loop xs (ul_dss_id, dl_dss_id, ul_band, dl_band, trk_mode))"

text \<open>
  The last statement of \<^verbatim>\<open>get_info\<close> (line 222):
  \<^verbatim>\<open>list(set( x.sec_chdo.cnt_time for x in f.sfdu_list if x.pri_chdo.format_code == 16 ))\<close>.
\<close>

definition doppler_count_times :: "SFDU list \<Rightarrow> error + int list" where
  "doppler_count_times sfdus =
     mapE (\<lambda>x. getattr (sec_chdo x) ''cnt_time'')
       (filter (\<lambda>x. format_code (pri_chdo x) = 16) sfdus)"

text \<open>\<^verbatim>\<open>Info.get_info(self, f)\<close>, statement by statement.\<close>

definition get_info :: "Info \<Rightarrow> Reader \<Rightarrow> error + Info" where
  "get_info self f =
     (let sfdus = sfdu_list f;
          n = types sfdus
      in
      bindE (mapE timestamp (filter is_decoded sfdus)) (\<lambda>dt.
      bindE (py_min dt) (\<lambda>start.
      bindE (py_max dt) (\<lambda>finish.
      bindE (mapE last_modified (filter is_decoded sfdus)) (\<lambda>dtm.
      bindE (py_max dtm) (\<lambda>modified.
      bindE (mapE (\<lambda>x. getattr (sec_chdo x) ''scft_id'') (filter is_decoded sfdus)) (\<lambda>scft.
      bindE (get_info_loop sfdus ([], [], [], [], []))
        (\<lambda>(ul_dss_id, dl_dss_id, ul_band, dl_band, trk_mode).
      bindE (lookup_bands dl_band) (\<lambda>dl_names.
      bindE (lookup_bands ul_band) (\<lambda>ul_names.
      bindE (doppler_count_times sfdus) (\<lambda>cnt.
      Inr (self\<lparr>numRecords := length sfdus, numberDataTypes := n,
                dataTypes := nonzero_positions n,
                startTime := Some start, endTime := Some finish, lastModified := Some modified,
                spacecraftId := set scft,
                dataDescriptionIds := set (map (\<lambda>x. data_description_id (label x)) sfdus),
                dnlinkDssId := set dl_dss_id, uplinkDssId := set ul_dss_id,
                dnlinkBand := dl_names, uplinkBand := ul_names,
                trackingMode := set trk_mode,
                dopplerCountTime := set cnt\<rparr>))))))))))))"

text \<open>
  \<^verbatim>\<open>struct.unpack('>4s', bs)[0].decode('ascii')\<close>: \<^verbatim>\<open>struct.error\<close> unless there are 4
  bytes, UnicodeDecodeError for a byte above 127.
\<close>

definition unpack_4s_ascii :: "bytes \<Rightarrow> error + string" where
  "unpack_4s_ascii bs =
     (if length bs \<noteq> 4 then Inl StructError
      else if list_all (\<lambda>x. unat x < 128) bs then Inr (map (\<lambda>x. char_of (unat x)) bs)
      else Inl UnicodeDecodeError)"

text \<open>
  The loop of \<^verbatim>\<open>quicklook\<close> over the frames (lines 248 to 258); the accumulator is
  \<open>(dl_dss_id, dl_band, data_description_id, ul_dss_id, ul_band, prdx_mode)\<close>, the third
  component written \<open>ddids\<close>.
\<close>

type_synonym quick_lists =
  "int list \<times> int list \<times> string list \<times> int list \<times> int list \<times> int list"

fun quicklook_loop :: "bytes list \<Rightarrow> quick_lists \<Rightarrow> error + quick_lists" where
  "quicklook_loop [] acc = Inr acc"
| "quicklook_loop (bindata # rest)
       (dl_dss_id, dl_band, ddids, ul_dss_id, ul_band, prdx_mode) =
     bindE (unpack_4s_ascii (py_slice bindata 8 12)) (\<lambda>ddid.
     bindE (if ddid = ''C124'' then
              bindE (unpack_B (py_slice bindata 66 67)) (\<lambda>a.
              bindE (unpack_B (py_slice bindata 67 68)) (\<lambda>b.
              bindE (unpack_B (py_slice bindata 69 70)) (\<lambda>c.
              Inr (dl_dss_id @ [a], dl_band @ [b], prdx_mode @ [c]))))
            else Inr (dl_dss_id, dl_band, prdx_mode)) (\<lambda>(dl_dss_id1, dl_band1, prdx_mode1).
     bindE (if ddid = ''C123'' then
              bindE (unpack_B (py_slice bindata 66 67)) (\<lambda>a.
              bindE (unpack_B (py_slice bindata 67 68)) (\<lambda>b.
              Inr (ul_dss_id @ [a], ul_band @ [b])))
            else Inr (ul_dss_id, ul_band)) (\<lambda>(ul_dss_id1, ul_band1).
     quicklook_loop rest
       (dl_dss_id1, dl_band1, ddids @ [ddid], ul_dss_id1, ul_band1, prdx_mode1))))"

text \<open>\<^verbatim>\<open>xs[i]\<close> for \<open>i \<ge> 0\<close> and \<^verbatim>\<open>xs[-k]\<close> for \<open>k > 0\<close>: IndexError out of range.\<close>

definition py_nth :: "'a list \<Rightarrow> nat \<Rightarrow> error + 'a" where
  "py_nth xs i = (if i < length xs then Inr (xs ! i) else Inl IndexError)"

definition py_nth_back :: "'a list \<Rightarrow> nat \<Rightarrow> error + 'a" where
  "py_nth_back xs k = (if k \<le> length xs then Inr (xs ! (length xs - k)) else Inl IndexError)"

text \<open>
  The first half of \<^verbatim>\<open>quicklook\<close> (lines 232 to 264): counts by fixed-offset reads. It
  prints nothing that depends on the data, so it is a function of the reader alone.
\<close>

definition quicklook_counts :: "Info \<Rightarrow> Reader \<Rightarrow> error + Info" where
  "quicklook_counts self f =
     bindE (get_data_types f) (\<lambda>format_codes.
     let n = map (\<lambda>i. length (filter (\<lambda>s. s = int i) format_codes)) [0..<18] in
     bindE (quicklook_loop (frames (Reader_binarydata f) (index f)) ([], [], [], [], [], []))
       (\<lambda>(dl_dss_id, dl_band, ddids, ul_dss_id, ul_band, prdx_mode).
     bindE (lookup_bands dl_band) (\<lambda>dl_names.
     bindE (lookup_bands ul_band) (\<lambda>ul_names.
     Inr (self\<lparr>numRecords := length (index f) - 1, numberDataTypes := n,
               dataTypes := nonzero_positions n,
               dataDescriptionIds := set ddids,
               dnlinkDssId := set dl_dss_id, uplinkDssId := set ul_dss_id,
               dnlinkBand := dl_names, uplinkBand := ul_names,
               trackingMode :=
                 set (map (\<lambda>x. Some (show_int x @ ''W''))
                        (filter (\<lambda>x. x \<in> set [1, 2, 3]) prdx_mode))\<rparr>)))))"

text \<open>
  The second half (lines 267 to 277): the first and the last record are decoded in full and
  give the start and end time.
\<close>

definition quicklook_times ::
  "components \<Rightarrow> Info \<Rightarrow> Reader \<Rightarrow> string list \<Rightarrow> (error + Info) \<times> string list" where
  "quicklook_times K self f out =
     (case bindE (py_nth (index f) 0) (\<lambda>i0. bindE (py_nth (index f) 1) (\<lambda>i1. Inr (i0, i1))) of
        Inl e \<Rightarrow> (Inl e, out)
      | Inr (i0, i1) \<Rightarrow>
     (case SFDU_decode K (SFDU_new K) (py_slice (Reader_binarydata f) i0 i1)
             True True True True True out of
        (Inl e, out1) \<Rightarrow> (Inl e, out1)
      | (Inr start, out1) \<Rightarrow>
     (case bindE (py_nth_back (index f) 2) (\<lambda>j0.
           bindE (py_nth_back (index f) 1) (\<lambda>j1. Inr (j0, j1))) of
        Inl e \<Rightarrow> (Inl e, out1)
      | Inr (j0, j1) \<Rightarrow>
     (case SFDU_decode K (SFDU_new K) (py_slice (Reader_binarydata f) j0 j1)
             True True True True True out1 of
        (Inl e, out2) \<Rightarrow> (Inl e, out2)
      | (Inr end_sfdu, out2) \<Rightarrow>
          (bindE (timestamp start) (\<lambda>t0.
           bindE (timestamp end_sfdu) (\<lambda>t1.
           bindE (timestamp end_sfdu) (\<lambda>t2.
           bindE (getattr (sec_chdo start) ''scft_id'') (\<lambda>scft.
           Inr (self\<lparr>startTime := Some t0, endTime := Some t1, lastModified := Some t2,
                     spacecraftId := {scft}\<rparr>))))), out2)))))"

text \<open>\<^verbatim>\<open>Info.quicklook(self, f)\<close>.\<close>

definition quicklook ::
  "components \<Rightarrow> Info \<Rightarrow> Reader \<Rightarrow> string list \<Rightarrow> (error + Info) \<times> string list" where
  "quicklook K self f out =
     (case get_data_types f of
        Inl e \<Rightarrow> (Inl e, out @ [''Getting data type list...''])
      | Inr _ \<Rightarrow>
     (case quicklook_counts self f of
        Inl e \<Rightarrow> (Inl e, out @ [''Getting data type list...'', ''Getting DSS information...''])
      | Inr self1 \<Rightarrow>
          quicklook_times K self1 f
            (out @ [''Getting data type list...'', ''Getting DSS information...'',
                    ''Getting timestamps...''])))"

text \<open>
  \<^verbatim>\<open>Info.__init__(self, f, quicklook=False)\<close> for a \<^verbatim>\<open>Reader\<close> \<open>f\<close>: the summary and the
  reader, which the full path decodes (without the tracking stage) when it is not decoded
  yet.
\<close>

definition Info_new ::
  "components \<Rightarrow> Reader \<Rightarrow> bool \<Rightarrow> string list \<Rightarrow> (error + Info \<times> Reader) \<times> string list" where
  "Info_new K f quick out =
     (case (if \<not> quick \<and> \<not> Reader_is_decoded f
            then Reader_decode K f True True True True False out
            else (Inr f, out)) of
        (Inl e, out1) \<Rightarrow> (Inl e, out1)
      | (Inr f1, out1) \<Rightarrow>
          (if quick then
             (case quicklook K Info_initial f1
                     (out1 @ [''Running `quicklook` algorithm. This algorithm is fast, but is not as detailed/accurate as the default...'']) of
                (Inl e, out2) \<Rightarrow> (Inl e, out2)
              | (Inr self, out2) \<Rightarrow> (Inr (self\<lparr>Info_filename := Some (filename f1)\<rparr>, f1), out2))
           else
             (case get_info Info_initial f1 of
                Inl e \<Rightarrow> (Inl e, out1)
              | Inr self \<Rightarrow> (Inr (self\<lparr>Info_filename := Some (filename f1)\<rparr>, f1), out1))))"

section \<open>The scripts\<close>

text \<open>
  \<^verbatim>\<open>print_log(message, verbose)\<close>, and the \<^verbatim>\<open>%02i\<close>, \<^verbatim>\<open>%10s\<close> and \<^verbatim>\<open>%10i\<close> conversions.
\<close>

definition print_log :: "string \<Rightarrow> bool \<Rightarrow> string list \<Rightarrow> string list" where
  "print_log message v out = (if v then out @ [message] else out)"

definition fmt_02i :: "nat \<Rightarrow> string" where
  "fmt_02i i = replicate (2 - length (show_nat i)) CHR ''0'' @ show_nat i"

definition fmt_10s :: "string \<Rightarrow> string" where
  "fmt_10s s = replicate (10 - length s) CHR '' '' @ s"

definition fmt_10i :: "int \<Rightarrow> string" where
  "fmt_10i i = fmt_10s (show_int i)"

text \<open>The arguments both scripts share, and those of each.\<close>

record script_args =
  Input :: string
  Output :: string
  verbose :: bool
  prompt :: bool

record regroup_args = script_args +
  validate :: bool

record purify_args = script_args +
  dl_band_arg :: "string option"
  ul_band_arg :: "string option"
  dl_dss_id_arg :: "int option"
  ul_dss_id_arg :: "int option"
  format_code_arg :: "int option"

subsection \<open>trk234\_regroup.py\<close>

text \<open>
  \<^verbatim>\<open>
   for i in sort_types:
      sfdu_list = [ x for x in sfdus if x.pri_chdo.format_code == i ]
      for s in sfdu_list:
         fout.write( s.binarydata )
      print_log('   Wrote %i SFDUs in file of data type %02i to output' % ( len(sfdu_list), i ), args.verbose)
  \<close>
  The output file is the bytes written so far.
\<close>

fun write_all :: "SFDU list \<Rightarrow> bytes \<Rightarrow> bytes" where
  "write_all [] fout = fout"
| "write_all (s # rest) fout = write_all rest (fout @ binarydata s)"

fun regroup_loop ::
  "SFDU list \<Rightarrow> bool \<Rightarrow> nat list \<Rightarrow> bytes \<Rightarrow> string list \<Rightarrow> bytes \<times> string list" where
  "regroup_loop sfdus v [] fout out = (fout, out)"
| "regroup_loop sfdus v (i # rest) fout out =
     (let matching = filter (\<lambda>x. format_code (pri_chdo x) = int i) sfdus
      in regroup_loop sfdus v rest (write_all matching fout)
           (print_log (''   Wrote '' @ show_int (int (length matching))
                         @ '' SFDUs in file of data type '' @ fmt_02i i @ '' to output'') v out))"

text \<open>
  The validation block (lines 120 to 144). It constructs its second reader from
  \<^verbatim>\<open>args.Input\<close>:
  \<^verbatim>\<open>
      # Open the output file for reading
      f2 = trk234.Reader( args.Input )
      f2.decode( sec_chdo=False, trk_chdo=False )
      sfdus2 = f2.sfdu_list
  \<close>
\<close>

definition regroup_validate ::
  "components \<Rightarrow> (string \<rightharpoonup> bytes) \<Rightarrow> regroup_args \<Rightarrow> SFDU list \<Rightarrow> string list
     \<Rightarrow> (error + unit) \<times> string list" where
  "regroup_validate K fs args sfdus out =
     (case Reader_new fs (Input args) of
        Inl e \<Rightarrow> (Inl e, out)
      | Inr f2 \<Rightarrow>
     (case Reader_decode K f2 True True True False False out of
        (Inl e, out1) \<Rightarrow> (Inl e, out1)
      | (Inr f2', out1) \<Rightarrow>
          (let sfdus2 = sfdu_list f2';
               n1 = length sfdus;
               n2 = length sfdus2;
               out2 = (if n1 \<noteq> n2
                       then out1 @ [''WARNING: files contain different number of SFDUs!'']
                       else out1);
               n_type1 = types sfdus;
               n_type2 = types sfdus2;
               out3 = (if n_type1 \<noteq> n_type2
                       then out2 @ [''WARNING: files contain different numbers of data types!'']
                       else out2)
           in (Inr (),
               out3 @ [''Output Validation Results:'',
                       fmt_10s ''SFDU Type'' @ fmt_10s ''Input'' @ fmt_10s ''Output'',
                       fmt_10s ''Total'' @ fmt_10i (int n1) @ fmt_10i (int n2)]
                    @ map (\<lambda>i. fmt_10i (int i) @ fmt_10i (int (n_type1 ! i))
                                  @ fmt_10i (int (n_type2 ! i))) [0..<18]))))"

text \<open>
  \<^verbatim>\<open>main(args)\<close> of \<^verbatim>\<open>trk234_regroup.py\<close>: the exception or normal end, the file system and
  the output. With \<^verbatim>\<open>args.prompt\<close> the script calls \<^verbatim>\<open>raw_input\<close>, which Python 3 does not
  define.
\<close>

definition regroup_main ::
  "components \<Rightarrow> (string \<rightharpoonup> bytes) \<Rightarrow> regroup_args \<Rightarrow> string list
     \<Rightarrow> (error + unit) \<times> (string \<rightharpoonup> bytes) \<times> string list" where
  "regroup_main K fs args out =
     (let out1 = print_log (''Reading '' @ Input args) (verbose args) out in
      case Reader_new fs (Input args) of
        Inl e \<Rightarrow> (Inl e, fs, out1)
      | Inr f0 \<Rightarrow>
     (case Reader_decode K f0 True True True False False out1 of
        (Inl e, out2) \<Rightarrow> (Inl e, fs, out2)
      | (Inr f, out2) \<Rightarrow>
          (let sfdus = sfdu_list f;
               out3 = print_log (''Sorting '' @ Input args @ '' by file type ascending'')
                        (verbose args) out2
           in if prompt args then (Inl (NameError ''raw_input''), fs, out3)
              else
                (let fs1 = fs(Output args \<mapsto> []);
                     out4 = print_log (''Beginning writing of binary data to '' @ Output args)
                              (verbose args) out3;
                     (fout, out5) = regroup_loop sfdus (verbose args) [0..<18] [] out4;
                     fs2 = fs1(Output args \<mapsto> fout);
                     out6 = print_log ''Finished binary file write'' (verbose args) out5
                 in if validate args then
                      (case regroup_validate K fs2 args sfdus out6 of
                         (r, out7) \<Rightarrow> (r, fs2, out7))
                    else (Inr (), fs2, out6)))))"

subsection \<open>trk234\_purify.py\<close>

text \<open>
  One pass of the loop body (lines 98 to 136) up to the write: \<open>Some message\<close> when the
  record is discarded with that log message, \<open>None\<close> when it is to be written. The first
  test that discards wins.
\<close>

definition then_test ::
  "error + string option \<Rightarrow> error + string option \<Rightarrow> error + string option" where
  "then_test a b = (case a of Inl e \<Rightarrow> Inl e | Inr (Some m) \<Rightarrow> Inr (Some m) | Inr None \<Rightarrow> b)"

definition test_dss_id :: "string \<Rightarrow> string \<Rightarrow> int option \<Rightarrow> SFDU \<Rightarrow> error + string option" where
  "test_dss_id attr what arg s =
     (case arg of
        None \<Rightarrow> Inr None
      | Some wanted \<Rightarrow>
          if hasattr (sec_chdo s) attr then
            bindE (getattr (sec_chdo s) attr) (\<lambda>v.
              if wanted \<noteq> v then
                Inr (Some (''Discarding SFDU '' @ show_nat (number s)
                    @ '' - does not match user specified '' @ what @ '' ('' @ show_int wanted
                    @ '', this one = '' @ show_int v @ '')''))
              else Inr None)
          else Inr None)"

definition test_band :: "string \<Rightarrow> string \<Rightarrow> string option \<Rightarrow> SFDU \<Rightarrow> error + string option" where
  "test_band attr what arg s =
     (case arg of
        None \<Rightarrow> Inr None
      | Some wanted \<Rightarrow>
          if hasattr (sec_chdo s) attr then
            bindE (getattr (sec_chdo s) attr) (\<lambda>v.
              case bands v of
                None \<Rightarrow> Inl KeyError
              | Some name \<Rightarrow>
                  if wanted \<noteq> name then
                    Inr (Some (''Discarding SFDU '' @ show_nat (number s)
                        @ '' - does not match user specified '' @ what @ ''('' @ wanted
                        @ '', this one = '' @ name @ '')''))
                  else Inr None)
          else Inr None)"

definition purify_test :: "purify_args \<Rightarrow> SFDU \<Rightarrow> error + string option" where
  "purify_test args s =
     (if data_description_id (label s) \<notin> set data_descriptions_keys then
        Inr (Some (''Discarding SFDU '' @ show_nat (number s)
            @ '' - invalid CHDO data description of '' @ [CHR 0x22]
            @ data_description_id (label s) @ [CHR 0x22]))
      else if format_code (pri_chdo s) \<notin> set format_codes_keys then
        Inr (Some (''Discarding SFDU '' @ show_nat (number s)
            @ '' - invalid CHDO format code of '' @ show_int (format_code (pri_chdo s))))
      else
        then_test
          (case format_code_arg args of
             None \<Rightarrow> Inr None
           | Some wanted \<Rightarrow>
               if wanted \<noteq> format_code (pri_chdo s) then
                 Inr (Some (''Discarding SFDU '' @ show_nat (number s)
                     @ '' - does not match user specified format code ('' @ show_int wanted
                     @ '', this one = '' @ show_int (format_code (pri_chdo s)) @ '')''))
               else Inr None)
       (then_test (test_dss_id ''ul_dss_id'' ''uplink DSS ID'' (ul_dss_id_arg args) s)
       (then_test (test_band ''ul_band'' ''uplink band '' (ul_band_arg args) s)
       (then_test (test_dss_id ''dl_dss_id'' ''downlink DSS ID'' (dl_dss_id_arg args) s)
                  (test_band ''dl_band'' ''downlink band'' (dl_band_arg args) s)))))"

text \<open>
  The loop over \<^verbatim>\<open>f.sfdu_list\<close>; when a test raises, the file holds what was written
  before.
\<close>

fun purify_loop ::
  "purify_args \<Rightarrow> SFDU list \<Rightarrow> bytes \<Rightarrow> string list \<Rightarrow> (error + unit) \<times> bytes \<times> string list" where
  "purify_loop args [] fout out = (Inr (), fout, out)"
| "purify_loop args (s # rest) fout out =
     (case purify_test args s of
        Inl e \<Rightarrow> (Inl e, fout, out)
      | Inr (Some message) \<Rightarrow> purify_loop args rest fout (print_log message (verbose args) out)
      | Inr None \<Rightarrow> purify_loop args rest (fout @ binarydata s) out)"

text \<open>\<^verbatim>\<open>main(args)\<close> of \<^verbatim>\<open>trk234_purify.py\<close>.\<close>

definition purify_main ::
  "components \<Rightarrow> (string \<rightharpoonup> bytes) \<Rightarrow> purify_args \<Rightarrow> string list
     \<Rightarrow> (error + unit) \<times> (string \<rightharpoonup> bytes) \<times> string list" where
  "purify_main K fs args out =
     (let out1 = print_log (''Reading '' @ Input args) (verbose args) out in
      case Reader_new fs (Input args) of
        Inl e \<Rightarrow> (Inl e, fs, out1)
      | Inr f0 \<Rightarrow>
     (case Reader_decode K f0 True True True True False out1 of
        (Inl e, out2) \<Rightarrow> (Inl e, fs, out2)
      | (Inr f, out2) \<Rightarrow>
          if prompt args then (Inl (NameError ''raw_input''), fs, out2)
          else
            (let out3 = print_log (''Beginning writing of binary data to '' @ Output args)
                          (verbose args) out2
             in case purify_loop args (sfdu_list f) [] out3 of
                  (Inl e, fout, out4) \<Rightarrow> (Inl e, fs(Output args \<mapsto> fout), out4)
                | (Inr u, fout, out4) \<Rightarrow>
                    (Inr (), fs(Output args \<mapsto> fout),
                     print_log ''Finished binary file write'' (verbose args) out4))))"

section \<open>A stand-in for the components package\<close>

text \<open>
  Modelled from the spec: the decoders of the package \<^verbatim>\<open>trk234.components\<close> (classes
  \<^verbatim>\<open>SFDULabel\<close>, \<^verbatim>\<open>SFDUAggCHDO\<close>, \<^verbatim>\<open>PrimaryCHDO\<close> and the secondary and tracking CHDO
  classes), which are missing from the sources. The label declares the 4-character
  data-description code and the declared length, the primary header the format code; they
  are read where the code at hand reads them by fixed offset (bytes 8..12 in
  \<^verbatim>\<open>Info.quicklook\<close>, bytes 12..20 in \<^verbatim>\<open>Reader.sfdu_index\<close>, byte 31 in
  \<^verbatim>\<open>Reader.get_data_types\<close>), and so are the station id, band and mode of a secondary header
  (bytes 66, 67 and 69 in \<^verbatim>\<open>Info.quicklook\<close>). The offsets of the remaining secondary fields
  are this stand-in's own choice. The theorems below hold for every value of the
  \<open>components\<close> parameter; the stand-in only serves to evaluate them at concrete records.
\<close>

definition example_label_decode :: "bytes \<Rightarrow> error + SFDULabel" where
  "example_label_decode r =
     (if length r < 20 then Inl StructError
      else Inr \<lparr>data_description_id = map (\<lambda>x. char_of (unat x)) (py_slice r 8 12),
                sfdu_length = be_nat (py_slice r 12 20)\<rparr>)"

definition example_agg_decode :: "bytes \<Rightarrow> error + chdo" where
  "example_agg_decode r =
     (if length r < 24 then Inl StructError
      else Inr (map_of [(''chdo_type'', int (be_nat (py_slice r 20 22))),
                        (''chdo_length'', int (be_nat (py_slice r 22 24)))]))"

definition example_primary_decode :: "bytes \<Rightarrow> error + PrimaryCHDO" where
  "example_primary_decode r =
     (if length r < 32 then Inl StructError
      else Inr \<lparr>format_code = int (be_nat (py_slice r 31 32))\<rparr>)"

definition example_secondary_attrs :: "sec_class \<Rightarrow> int \<Rightarrow> int \<Rightarrow> int \<Rightarrow> chdo" where
  "example_secondary_attrs c y doy s =
     map_of
       ([(''scft_id'', 0), (''year'', y), (''doy'', doy), (''sec'', s), (''mod_day'', 0),
         (''mod_msec'', 0), (''cnt_time'', 0)]
        @ (if c = UplinkCHDO then [(''ul_dss_id'', 14), (''ul_band'', 2)]
           else [(''dl_dss_id'', 14), (''dl_band'', 2), (''prdx_mode'', 1),
                 (''ul_prdx_stn'', 0), (''ul_band'', 0)]))"

definition example_secondary_decode :: "sec_class \<Rightarrow> bytes \<Rightarrow> error + chdo" where
  "example_secondary_decode c r =
     (if length r < 72 then Inl StructError
      else Inr (map_of
        ([(''scft_id'', int (be_nat (py_slice r 39 40))),
          (''year'', int (be_nat (py_slice r 44 46))),
          (''doy'', int (be_nat (py_slice r 46 48))),
          (''sec'', int (be_nat (py_slice r 48 56))),
          (''mod_day'', int (be_nat (py_slice r 56 58))),
          (''mod_msec'', int (be_nat (py_slice r 58 62))),
          (''cnt_time'', int (be_nat (py_slice r 62 66)))]
         @ (if c = UplinkCHDO then
              [(''ul_dss_id'', int (be_nat (py_slice r 66 67))),
               (''ul_band'', int (be_nat (py_slice r 67 68)))]
            else
              [(''dl_dss_id'', int (be_nat (py_slice r 66 67))),
               (''dl_band'', int (be_nat (py_slice r 67 68))),
               (''prdx_mode'', int (be_nat (py_slice r 69 70))),
               (''ul_prdx_stn'', int (be_nat (py_slice r 70 71))),
               (''ul_band'', int (be_nat (py_slice r 71 72)))]))))"

definition example_tracking_decode :: "trk_class \<Rightarrow> bytes \<Rightarrow> error + chdo" where
  "example_tracking_decode c r = Inr Map.empty"

definition example_components :: components where
  "example_components =
     \<lparr>SFDULabel_new = \<lparr>data_description_id = [], sfdu_length = 0\<rparr>,
      SFDULabel_decode = example_label_decode,
      SFDUAggCHDO_new = Map.empty,
      SFDUAggCHDO_decode = example_agg_decode,
      PrimaryCHDO_new = \<lparr>format_code = 0\<rparr>,
      PrimaryCHDO_decode = example_primary_decode,
      SecondaryCHDO_decode = example_secondary_decode,
      TrackingCHDO_decode = example_tracking_decode\<rparr>"

text \<open>
  A 72-byte record for this layout: data-description code \<open>d\<close> (4 characters), declared
  length 52, format code \<open>c\<close>, year \<open>y\<close>, day of year \<open>doy\<close>, second of day \<open>s\<close> (each
  below 65536, in the two low bytes of its field), and station id 14, band 2 (X), mode 1 at
  bytes 66, 67 and 69.
\<close>

definition example_record :: "string \<Rightarrow> nat \<Rightarrow> nat \<Rightarrow> nat \<Rightarrow> nat \<Rightarrow> bytes" where
  "example_record d c y doy s =
     map (\<lambda>ch. of_nat (of_char ch)) ''NJPL2I00'' @ map (\<lambda>ch. of_nat (of_char ch)) d
     @ replicate 7 0 @ [52] @ replicate 11 0 @ [of_nat c] @ replicate 12 0
     @ [of_nat (y div 256), of_nat y] @ [of_nat (doy div 256), of_nat doy]
     @ replicate 6 0 @ [of_nat (s div 256), of_nat s] @ replicate 10 0
     @ [14, 2, 0, 1, 0, 0]"

text \<open>
  The attributes the stand-in decodes from such a record are \<open>example_secondary_attrs\<close>.
  Three such records with format codes 1, 9, 1, the middle one with the unknown
  data-description code \<open>XXXX\<close>, and a reader holding them with their boundaries.
\<close>

definition example_stream :: bytes where
  "example_stream =
     concat [example_record ''C124'' 1 2024 100 3600, example_record ''XXXX'' 9 2024 100 3601,
             example_record ''C124'' 1 2024 100 3602]"

definition example_reader :: Reader where
  "example_reader =
     \<lparr>filename = ''example.tnf'', sfdu_list = [], Reader_is_decoded = False,
      Reader_binarydata = example_stream, index = [0, 72, 144, 216]\<rparr>"

text \<open>
  Two records as \<^verbatim>\<open>Reader.decode(trk_chdo=False)\<close> leaves them with the stand-in: a decoded
  downlink record, and a record with the unknown code \<open>XXXX\<close> and format code 16, whose
  secondary stage was skipped.
\<close>

definition example_sfdu_decoded :: SFDU where
  "example_sfdu_decoded =
     \<lparr>binarydata = example_record ''C124'' 1 2024 100 3600, number = 0,
      label = \<lparr>data_description_id = ''C124'', sfdu_length = 52\<rparr>,
      agg_chdo = map_of [(''chdo_type'', 0), (''chdo_length'', 0)],
      pri_chdo = \<lparr>format_code = 1\<rparr>,
      sec_chdo = Some (example_secondary_attrs DownlinkCHDO 2024 100 3600),
      trk_chdo = None, is_decoded = True\<rparr>"

definition example_sfdu_skipped :: SFDU where
  "example_sfdu_skipped =
     \<lparr>binarydata = example_record ''XXXX'' 16 2024 100 3601, number = 1,
      label = \<lparr>data_description_id = ''XXXX'', sfdu_length = 52\<rparr>,
      agg_chdo = map_of [(''chdo_type'', 0), (''chdo_length'', 0)],
      pri_chdo = \<lparr>format_code = 16\<rparr>,
      sec_chdo = None, trk_chdo = None, is_decoded = False\<rparr>"

definition example_decoded_reader :: Reader where
  "example_decoded_reader =
     \<lparr>filename = ''example.tnf'', sfdu_list = [example_sfdu_decoded, example_sfdu_skipped],
      Reader_is_decoded = True,
      Reader_binarydata =
        concat [example_record ''C124'' 1 2024 100 3600, example_record ''XXXX'' 16 2024 100 3601],
      index = [0, 72, 144]\<rparr>"

section \<open>Vocabulary of the statements\<close>

text \<open>
  \<open>record_decodes K r\<close>: none of the component decoders that a full decode of the bytes \<open>r\<close>
  reaches raises. \<open>known_codes K r\<close>: the label decoded from \<open>r\<close> carries one of the five
  data-description codes and the primary header decoded from \<open>r\<close> a format code in 0..17.
\<close>

definition record_decodes :: "components \<Rightarrow> bytes \<Rightarrow> bool" where
  "record_decodes K r =
     (case SFDULabel_decode K r of
        Inl _ \<Rightarrow> False
      | Inr l \<Rightarrow>
     (case SFDUAggCHDO_decode K r of
        Inl _ \<Rightarrow> False
      | Inr _ \<Rightarrow>
     (case PrimaryCHDO_decode K r of
        Inl _ \<Rightarrow> False
      | Inr p \<Rightarrow>
     (case select_sec_class (data_description_id l) of
        None \<Rightarrow> True
      | Some c \<Rightarrow>
     (case SecondaryCHDO_decode K c r of
        Inl _ \<Rightarrow> False
      | Inr _ \<Rightarrow>
     (case select_trk_class (format_code p) of
        None \<Rightarrow> True
      | Some t \<Rightarrow>
     (case TrackingCHDO_decode K t r of
        Inl _ \<Rightarrow> False
      | Inr _ \<Rightarrow> True)))))))"

definition known_codes :: "components \<Rightarrow> bytes \<Rightarrow> bool" where
  "known_codes K r =
     (case SFDULabel_decode K r of
        Inl _ \<Rightarrow> False
      | Inr l \<Rightarrow>
     (case PrimaryCHDO_decode K r of
        Inl _ \<Rightarrow> False
      | Inr p \<Rightarrow>
          data_description_id l \<in> set data_descriptions_keys \<and>
          format_code p \<in> set format_codes_keys))"

text \<open>
  The diagnostic a full decode of \<open>r\<close> as record number \<open>i\<close> prints for an unknown code, if
  any: the secondary one for an unknown data-description code, else the tracking one for an
  unknown format code.
\<close>

definition expected_warning :: "components \<Rightarrow> nat \<Rightarrow> bytes \<Rightarrow> string option" where
  "expected_warning K i r =
     (case SFDULabel_decode K r of
        Inl _ \<Rightarrow> None
      | Inr l \<Rightarrow>
     (case PrimaryCHDO_decode K r of
        Inl _ \<Rightarrow> None
      | Inr p \<Rightarrow>
          if data_description_id l \<notin> set data_descriptions_keys
          then Some (unknown_secondary_warning i (data_description_id l))
          else if format_code p \<notin> set format_codes_keys
          then Some (unknown_tracking_warning i (format_code p))
          else None))"

text \<open>
  A record whose label declares its own length, and the boundaries of a buffer that is the
  concatenation of records, starting at offset \<open>n\<close>.
\<close>

definition well_framed :: "bytes \<Rightarrow> bool" where
  "well_framed r = (length r = be_nat (py_slice r 12 20) + 20)"

fun ends :: "nat \<Rightarrow> bytes list \<Rightarrow> nat list" where
  "ends n [] = []"
| "ends n (r # rs) = (n + length r) # ends (n + length r) rs"

definition offsets :: "nat \<Rightarrow> bytes list \<Rightarrow> nat list" where
  "offsets n rs = n # ends n rs"

text \<open>
  The loop of \<^verbatim>\<open>Reader.decode\<close> seen as a pass over the frames, the record number counted
  from \<open>n\<close>.
\<close>

fun decode_records ::
  "components \<Rightarrow> bool \<Rightarrow> bool \<Rightarrow> bool \<Rightarrow> bool \<Rightarrow> bool \<Rightarrow> bytes list \<Rightarrow> nat
     \<Rightarrow> SFDU list \<Rightarrow> string list \<Rightarrow> (error + SFDU list) \<times> string list" where
  "decode_records K lab agg pri sec trk [] n sfdus out = (Inr sfdus, out)"
| "decode_records K lab agg pri sec trk (r # rs) n sfdus out =
     (case SFDU_decode K ((SFDU_new K)\<lparr>number := n\<rparr>) r lab agg pri sec trk out of
        (Inl e, out1) \<Rightarrow> (Inl e, out1)
      | (Inr sfdu, out1) \<Rightarrow> decode_records K lab agg pri sec trk rs (Suc n) (sfdus @ [sfdu]) out1)"

section \<open>Properties of the framing indexer\<close>

lemma length_py_slice: "length (py_slice xs i j) = min (j - i) (length xs - i)"
  by (simp add: py_slice_def)

lemma unpack_Q_header:
  "unpack_Q (py_slice b (cur + 12) (cur + 20)) =
     (if cur + 20 \<le> length b then Inr (be_nat (py_slice b (cur + 12) (cur + 20))) else Inl StructError)"
  by (auto simp: unpack_Q_def length_py_slice min_def)

declare sfdu_index_loop.simps [simp del]

lemma chain_from_Nil_iff: "chain_from b n rest \<Longrightarrow> length b \<le> n \<Longrightarrow> rest = []"
  by (cases rest) auto

lemma sfdu_index_loop_chain:
  "ind \<noteq> [] \<Longrightarrow> last ind = n \<Longrightarrow> off = n \<Longrightarrow>
   (sfdu_index_loop b ind n off = Inr res) = (\<exists>rest. res = ind @ rest \<and> chain_from b n rest)"
proof (induction b ind n off arbitrary: res rule: sfdu_index_loop.induct)
  case (1 b ind n off)
  note ne = \<open>ind \<noteq> []\<close> and la = \<open>last ind = n\<close> and off = \<open>off = n\<close>
  consider (stop) "length b \<le> n" | (short) "n < length b" "length b < n + 20"
    | (step) "n < length b" "n + 20 \<le> length b"
    by linarith
  then show ?case
  proof cases
    case stop
    have "sfdu_index_loop b ind n off = Inr ind"
      using stop off by (simp add: sfdu_index_loop.simps [of b ind n n])
    moreover have "(\<exists>rest. res = ind @ rest \<and> chain_from b n rest) = (res = ind)"
      using stop by (auto dest: chain_from_Nil_iff)
    ultimately show ?thesis by auto
  next
    case short
    have "sfdu_index_loop b ind n off = Inl StructError"
      using short off by (simp add: sfdu_index_loop.simps [of b ind n n] unpack_Q_header)
    moreover have "\<not> chain_from b n rest" for rest
      using short by (cases rest) auto
    ultimately show ?thesis by simp
  next
    case step
    define L where "L = be_nat (py_slice b (n + 12) (n + 20))"
    define n' where "n' = L + 20 + last ind"
    have u: "unpack_Q (py_slice b (off + 12) (off + 20)) = Inr L"
      using step off by (simp add: unpack_Q_header L_def)
    have unf: "sfdu_index_loop b ind n off = sfdu_index_loop b (ind @ [n']) n' n'"
      using step u ne off by (simp add: sfdu_index_loop.simps [of b ind n n] n'_def Let_def)
    have ih: "(sfdu_index_loop b (ind @ [n']) n' n' = Inr res) =
              (\<exists>rest. res = (ind @ [n']) @ rest \<and> chain_from b n' rest)"
      by (rule "1.IH" [OF step(1) u ne n'_def]) simp_all
    have "(\<exists>rest. res = ind @ rest \<and> chain_from b n rest) =
          (\<exists>rest'. res = ind @ n' # rest' \<and> chain_from b n' rest')"
    proof
      assume "\<exists>rest. res = ind @ rest \<and> chain_from b n rest"
      then obtain rest where r: "res = ind @ rest" "chain_from b n rest" by blast
      with step obtain x rest' where "rest = x # rest'" by (cases rest) auto
      with r show "\<exists>rest'. res = ind @ n' # rest' \<and> chain_from b n' rest'"
        using la by (auto simp: n'_def L_def add.commute add.left_commute)
    next
      assume "\<exists>rest'. res = ind @ n' # rest' \<and> chain_from b n' rest'"
      then obtain rest' where "res = ind @ n' # rest'" "chain_from b n' rest'" by blast
      then have "res = ind @ (n' # rest') \<and> chain_from b n (n' # rest')"
        using step la by (simp add: n'_def L_def add.commute add.left_commute)
      then show "\<exists>rest. res = ind @ rest \<and> chain_from b n rest" by blast
    qed
    with unf ih show ?thesis by simp
  qed
qed

lemma sfdu_index_chain: "(sfdu_index b = Inr ind) = boundary_chain b ind"
proof -
  have "(sfdu_index b = Inr ind) = (\<exists>rest. ind = [0] @ rest \<and> chain_from b 0 rest)"
    unfolding sfdu_index_def by (rule sfdu_index_loop_chain) simp_all
  also have "\<dots> = boundary_chain b ind"
    by (cases ind) (auto simp: boundary_chain_def)
  finally show ?thesis .
qed


lemma sfdu_index_loop_error:
  "sfdu_index_loop b ind n off = Inl e \<Longrightarrow> ind \<noteq> [] \<Longrightarrow> e = StructError"
proof (induction b ind n off rule: sfdu_index_loop.induct)
  case (1 b ind n off)
  from "1.prems" show ?case
    by (subst (asm) sfdu_index_loop.simps)
       (auto simp: unpack_Q_def Let_def split: if_splits sum.splits dest: "1.IH")
qed

lemma sfdu_index_error: "sfdu_index b = Inl e \<Longrightarrow> e = StructError"
  unfolding sfdu_index_def by (erule sfdu_index_loop_error) simp

lemma frames_Cons2:
  "frames b (x # y # r) = py_slice b x y # frames b (y # r)"
proof -
  have "[0..<Suc (length r)] = 0 # map Suc [0..<length r]"
    by (simp add: upt_conv_Cons map_Suc_upt del: upt_Suc)
  then show ?thesis
    by (simp add: frames_def comp_def del: upt_Suc)
qed

lemma frames_single: "frames b [x] = []"
  by (simp add: frames_def)

lemma chain_from_mono: "chain_from b cur rest \<Longrightarrow> x \<in> set rest \<Longrightarrow> cur < x"
  by (induction rest arbitrary: cur) fastforce+

lemma concat_frames_chain:
  "chain_from b cur rest \<Longrightarrow> concat (frames b (cur # rest)) = drop cur b"
proof (induction rest arbitrary: cur)
  case Nil
  then show ?case by (simp add: frames_single)
next
  case (Cons nxt rest)
  then have lt: "cur \<le> nxt" and ch: "chain_from b nxt rest" by auto
  have "concat (frames b (cur # nxt # rest)) = py_slice b cur nxt @ drop nxt b"
    using Cons.IH [OF ch] by (simp add: frames_Cons2)
  also have "\<dots> = take (nxt - cur) (drop cur b) @ drop (nxt - cur) (drop cur b)"
    using lt by (simp add: py_slice_def)
  also have "\<dots> = drop cur b"
    by (rule append_take_drop_id)
  finally show ?case .
qed

lemma chain_from_last:
  "chain_from b cur rest \<Longrightarrow> length b \<le> last (cur # rest)"
  by (induction rest arbitrary: cur) auto

lemma chain_from_headers:
  "chain_from b cur rest \<Longrightarrow> x \<in> set (butlast (cur # rest)) \<Longrightarrow> x + 20 \<le> length b"
  by (induction rest arbitrary: cur) (auto split: if_splits)

lemma py_slice_append2:
  "py_slice (pre @ r) (length pre + i) (length pre + j) = py_slice r i j"
  by (simp add: py_slice_def)

lemma py_slice_append1:
  "j \<le> length r \<Longrightarrow> py_slice (r @ post) i j = py_slice r i j"
  by (simp add: py_slice_def)

lemma chain_from_record:
  assumes "length pre = cur" "length r = L + 20" "be_nat (py_slice r 12 20) = L"
  shows "chain_from (pre @ r @ post) cur (nxt # rest) =
         (nxt = cur + L + 20 \<and> chain_from (pre @ r @ post) (cur + L + 20) rest)"
proof -
  have "py_slice (pre @ r @ post) (cur + 12) (cur + 20) = py_slice (r @ post) 12 20"
    using assms(1) py_slice_append2 [of pre "r @ post" 12 20] by simp
  also have "\<dots> = py_slice r 12 20"
    using assms(2) by (simp add: py_slice_append1)
  finally show ?thesis using assms by auto
qed

lemma three_records_chain:
  assumes "length r1 = L1 + 20" "be_nat (py_slice r1 12 20) = L1"
      and "length r2 = L2 + 20" "be_nat (py_slice r2 12 20) = L2"
      and "length r3 = L3 + 20" "be_nat (py_slice r3 12 20) = L3"
  shows "boundary_chain (r1 @ r2 @ r3) [0, L1 + 20, L1 + L2 + 40, L1 + L2 + L3 + 60]"
proof -
  let ?b = "r1 @ r2 @ r3"
  have e1: "0 + L1 + 20 = L1 + 20" and e2: "L1 + 20 + L2 + 20 = L1 + L2 + 40"
    and e3: "L1 + L2 + 40 + L3 + 20 = L1 + L2 + L3 + 60"
    by simp_all
  have "chain_from ([] @ r1 @ (r2 @ r3)) 0 (nxt # rest) =
          (nxt = 0 + L1 + 20 \<and> chain_from ([] @ r1 @ (r2 @ r3)) (0 + L1 + 20) rest)" for nxt rest
    by (rule chain_from_record) (simp_all add: assms)
  then have a: "chain_from ?b 0 (nxt # rest) = (nxt = L1 + 20 \<and> chain_from ?b (L1 + 20) rest)"
    for nxt rest
    unfolding e1 append_Nil .
  have "chain_from ?b (L1 + 20) (nxt # rest) =
          (nxt = L1 + 20 + L2 + 20 \<and> chain_from ?b (L1 + 20 + L2 + 20) rest)" for nxt rest
    by (rule chain_from_record) (simp_all add: assms)
  then have b: "chain_from ?b (L1 + 20) (nxt # rest) =
           (nxt = L1 + L2 + 40 \<and> chain_from ?b (L1 + L2 + 40) rest)" for nxt rest
    unfolding e2 .
  have "chain_from ((r1 @ r2) @ r3 @ []) (L1 + L2 + 40) (nxt # rest) =
          (nxt = L1 + L2 + 40 + L3 + 20 \<and>
           chain_from ((r1 @ r2) @ r3 @ []) (L1 + L2 + 40 + L3 + 20) rest)" for nxt rest
    by (rule chain_from_record) (simp_all add: assms)
  then have c: "chain_from ?b (L1 + L2 + 40) (nxt # rest) =
           (nxt = L1 + L2 + L3 + 60 \<and> chain_from ?b (L1 + L2 + L3 + 60) rest)" for nxt rest
    unfolding e3 append_assoc append_Nil2 .
  have d: "chain_from ?b (L1 + L2 + L3 + 60) []"
    using assms(1,3,5) by simp
  show ?thesis
    unfolding boundary_chain_def by (simp only: list.case a b c d simp_thms)
qed

section \<open>Properties of SFDU.decode and Reader.decode\<close>

declare show_nat.simps [simp del]

lemma select_sec_class_None:
  "(select_sec_class d = None) = (d \<notin> set data_descriptions_keys)"
  by (simp add: select_sec_class_def data_descriptions_keys_def)

lemma format_codes_keys_iff: "(c \<in> set format_codes_keys) = (0 \<le> c \<and> c \<le> 17)"
proof -
  have "(c \<in> set format_codes_keys) = (\<exists>n < 18. c = int n)"
    by (auto simp: format_codes_keys_def)
  also have "\<dots> = (0 \<le> c \<and> c \<le> 17)"
  proof
    assume "\<exists>n < 18. c = int n"
    then show "0 \<le> c \<and> c \<le> 17" by auto
  next
    assume "0 \<le> c \<and> c \<le> 17"
    then have "nat c < 18 \<and> c = int (nat c)" by auto
    then show "\<exists>n < 18. c = int n" by blast
  qed
  finally show ?thesis .
qed

lemma select_trk_class_None:
  "(select_trk_class c = None) = (c \<notin> set format_codes_keys)"
proof (cases "0 \<le> c \<and> c \<le> 17")
  case True
  then have "c = 0 \<or> c = 1 \<or> c = 2 \<or> c = 3 \<or> c = 4 \<or> c = 5 \<or> c = 6 \<or> c = 7 \<or> c = 8 \<or> c = 9
      \<or> c = 10 \<or> c = 11 \<or> c = 12 \<or> c = 13 \<or> c = 14 \<or> c = 15 \<or> c = 16 \<or> c = 17"
    by arith
  then have "select_trk_class c \<noteq> None"
    by (auto simp: select_trk_class_def)
  with True show ?thesis by (simp add: format_codes_keys_iff)
next
  case False
  then have "select_trk_class c = None"
    by (auto simp: select_trk_class_def)
  with False show ?thesis by (simp add: format_codes_keys_iff)
qed

lemma decode_headers_Inr:
  assumes "decode_headers K s lab agg pri = Inr h"
  shows "binarydata h = binarydata s" "number h = number s" "sec_chdo h = sec_chdo s"
    "trk_chdo h = trk_chdo s" "is_decoded h = is_decoded s"
    "lab \<Longrightarrow> SFDULabel_decode K (binarydata s) = Inr (label h)"
    "\<not> lab \<Longrightarrow> label h = label s"
    "agg \<Longrightarrow> SFDUAggCHDO_decode K (binarydata s) = Inr (agg_chdo h)"
    "pri \<Longrightarrow> PrimaryCHDO_decode K (binarydata s) = Inr (pri_chdo h)"
    "\<not> pri \<Longrightarrow> pri_chdo h = pri_chdo s"
  using assms by (auto simp: decode_headers_def split: if_splits sum.splits)

lemma decode_headers_all:
  "decode_headers K s True True True =
     (case SFDULabel_decode K (binarydata s) of
        Inl e \<Rightarrow> Inl e
      | Inr l \<Rightarrow>
          (case SFDUAggCHDO_decode K (binarydata s) of
             Inl e \<Rightarrow> Inl e
           | Inr a \<Rightarrow>
               (case PrimaryCHDO_decode K (binarydata s) of
                  Inl e \<Rightarrow> Inl e
                | Inr p \<Rightarrow> Inr (s\<lparr>label := l, agg_chdo := a, pri_chdo := p\<rparr>))))"
  by (simp add: decode_headers_def split: sum.splits)

lemma decode_secondary_cases:
  assumes "decode_secondary K s sec out = (r, out1)"
  shows "(\<exists>e. r = Raised e \<and> out1 = out) \<or>
         (r = Returned (s\<lparr>is_decoded := False\<rparr>) \<and> sec \<and>
            data_description_id (label s) \<notin> set data_descriptions_keys \<and>
            out1 = out @ [unknown_secondary_warning (number s) (data_description_id (label s))]) \<or>
         (r = Continue s \<and> \<not> sec \<and> out1 = out) \<or>
         (\<exists>c h. r = Continue (s\<lparr>sec_chdo := Some h\<rparr>) \<and> sec \<and> out1 = out \<and>
            select_sec_class (data_description_id (label s)) = Some c \<and>
            SecondaryCHDO_decode K c (binarydata s) = Inr h)"
  using assms
  by (auto simp: decode_secondary_def select_sec_class_None [symmetric]
           split: if_splits option.splits sum.splits)

lemma decode_tracking_cases:
  assumes "decode_tracking K s trk out = (r, out1)"
  shows "(\<exists>e. r = Raised e \<and> out1 = out) \<or>
         (r = Returned (s\<lparr>is_decoded := False\<rparr>) \<and> trk \<and>
            format_code (pri_chdo s) \<notin> set format_codes_keys \<and>
            out1 = out @ [unknown_tracking_warning (number s) (format_code (pri_chdo s))]) \<or>
         (r = Continue s \<and> \<not> trk \<and> out1 = out) \<or>
         (\<exists>c t. r = Continue (s\<lparr>trk_chdo := Some t\<rparr>) \<and> trk \<and> out1 = out \<and>
            select_trk_class (format_code (pri_chdo s)) = Some c \<and>
            TrackingCHDO_decode K c (binarydata s) = Inr t)"
  using assms
  by (auto simp: decode_tracking_def select_trk_class_None [symmetric]
           split: if_splits option.splits sum.splits)

lemma SFDU_decode_unknown_secondary:
  assumes "decode_headers K (self\<lparr>binarydata := r\<rparr>) lab agg pri = Inr h"
      and "data_description_id (label h) \<notin> set data_descriptions_keys"
  shows "SFDU_decode K self r lab agg pri True trk out =
           (Inr (h\<lparr>is_decoded := False\<rparr>),
            out @ [unknown_secondary_warning (number self) (data_description_id (label h))])"
proof -
  have "select_sec_class (data_description_id (label h)) = None"
    using assms(2) by (simp add: select_sec_class_None)
  moreover have "number h = number self"
    using decode_headers_Inr(2) [OF assms(1)] by simp
  ultimately show ?thesis
    using assms(1) by (simp add: SFDU_decode_def decode_secondary_def)
qed

lemma SFDU_decode_unknown_tracking:
  assumes "decode_headers K (self\<lparr>binarydata := r\<rparr>) lab agg pri = Inr h"
      and "decode_secondary K h sec out = (Continue h', out1)"
      and "format_code (pri_chdo h') \<notin> set format_codes_keys"
  shows "SFDU_decode K self r lab agg pri sec True out =
           (Inr (h'\<lparr>is_decoded := False\<rparr>),
            out1 @ [unknown_tracking_warning (number self) (format_code (pri_chdo h'))])"
proof -
  have "select_trk_class (format_code (pri_chdo h')) = None"
    using assms(3) by (simp add: select_trk_class_None)
  moreover have "number h' = number self"
    using decode_headers_Inr(2) [OF assms(1)] decode_secondary_cases [OF assms(2)] by auto
  ultimately show ?thesis
    using assms(1,2) by (simp add: SFDU_decode_def decode_tracking_def)
qed

lemma SFDU_decode_fst_out:
  "fst (SFDU_decode K self r lab agg pri sec trk out) =
   fst (SFDU_decode K self r lab agg pri sec trk [])"
  by (simp add: SFDU_decode_def decode_secondary_def decode_tracking_def
           split: sum.splits option.splits)

lemma select_sec_class_Some:
  "select_sec_class d = Some c \<Longrightarrow> d \<in> set data_descriptions_keys"
  using select_sec_class_None [of d] by auto

lemma select_trk_class_Some:
  "select_trk_class x = Some c \<Longrightarrow> x \<in> set format_codes_keys"
  using select_trk_class_None [of x] by auto

lemma SFDU_decode_full:
  assumes "record_decodes K r"
  shows "\<exists>s. SFDU_decode K self r True True True True True out =
               (Inr s, case expected_warning K (number self) r of
                         None \<Rightarrow> out | Some w \<Rightarrow> out @ [w]) \<and>
             is_decoded s = known_codes K r \<and> binarydata s = r \<and> number s = number self"
  using assms
  by (auto simp: SFDU_decode_def decode_headers_all decode_secondary_def decode_tracking_def
        record_decodes_def known_codes_def expected_warning_def
        select_sec_class_None [symmetric] select_trk_class_None [symmetric]
        split: sum.splits option.splits
        dest: select_sec_class_Some select_trk_class_Some)

lemma decode_loop_full:
  assumes "\<forall>i \<in> set is. record_decodes K (py_slice b (ind ! i) (ind ! (i + 1)))"
  shows "\<exists>new out1. decode_loop K b ind True True True True True is sfdus out
                     = (Inr (sfdus @ new), out1) \<and>
           map is_decoded new =
             map (\<lambda>i. known_codes K (py_slice b (ind ! i) (ind ! (i + 1)))) is \<and>
           map binarydata new = map (\<lambda>i. py_slice b (ind ! i) (ind ! (i + 1))) is \<and>
           map number new = is \<and> set out \<subseteq> set out1 \<and>
           (\<forall>i \<in> set is. \<forall>w. expected_warning K i (py_slice b (ind ! i) (ind ! (i + 1))) = Some w
               \<longrightarrow> w \<in> set out1)"
  using assms
proof (induction "is" arbitrary: sfdus out)
  case Nil
  then show ?case by simp
next
  case (Cons i rest)
  let ?sl = "\<lambda>i. py_slice b (ind ! i) (ind ! (i + 1))"
  let ?o = "case expected_warning K i (?sl i) of None \<Rightarrow> out | Some w \<Rightarrow> out @ [w]"
  from Cons.prems have d: "record_decodes K (?sl i)" by simp
  from SFDU_decode_full [OF d, of "(SFDU_new K)\<lparr>number := i\<rparr>" out]
  obtain s where s: "SFDU_decode K ((SFDU_new K)\<lparr>number := i\<rparr>) (?sl i)
                       True True True True True out = (Inr s, ?o)"
    and p: "is_decoded s = known_codes K (?sl i)" "binarydata s = ?sl i" "number s = i"
    by auto
  from Cons.prems have "\<forall>j \<in> set rest. record_decodes K (?sl j)" by simp
  from Cons.IH [OF this, of "sfdus @ [s]" ?o]
  obtain new out1 where
    l: "decode_loop K b ind True True True True True rest (sfdus @ [s]) ?o
          = (Inr ((sfdus @ [s]) @ new), out1)"
    and q: "map is_decoded new = map (\<lambda>i. known_codes K (?sl i)) rest"
      "map binarydata new = map ?sl rest" "map number new = rest" "set ?o \<subseteq> set out1"
      "\<forall>j \<in> set rest. \<forall>w. expected_warning K j (?sl j) = Some w \<longrightarrow> w \<in> set out1"
    by blast
  have sub: "set out \<subseteq> set out1" and here: "\<forall>w. expected_warning K i (?sl i) = Some w \<longrightarrow> w \<in> set out1"
    using q(4) by (auto split: option.splits)
  have "decode_loop K b ind True True True True True (i # rest) sfdus out
          = (Inr (sfdus @ (s # new)), out1)"
    using s l by simp
  with p q sub here show ?case
    by (intro exI [of _ "s # new"] exI [of _ out1]) simp
qed

lemma Reader_decode_full:
  assumes "\<forall>r \<in> set (frames (Reader_binarydata f) (index f)). record_decodes K r"
  shows "\<exists>f1 out1. Reader_decode K f True True True True True out = (Inr f1, out1) \<and>
           map is_decoded (sfdu_list f1) =
             map (known_codes K) (frames (Reader_binarydata f) (index f)) \<and>
           map binarydata (sfdu_list f1) = frames (Reader_binarydata f) (index f) \<and>
           map number (sfdu_list f1) = [0..<length (frames (Reader_binarydata f) (index f))] \<and>
           set out \<subseteq> set out1 \<and>
           (\<forall>i < length (frames (Reader_binarydata f) (index f)). \<forall>w.
              expected_warning K i (frames (Reader_binarydata f) (index f) ! i) = Some w
                \<longrightarrow> w \<in> set out1)"
proof -
  let ?b = "Reader_binarydata f" and ?ind = "index f"
  let ?is = "[0..<length ?ind - 1]"
  let ?sl = "\<lambda>i. py_slice ?b (?ind ! i) (?ind ! (i + 1))"
  have fr: "frames ?b ?ind = map ?sl ?is" by (simp add: frames_def)
  from assms have "\<forall>i \<in> set ?is. record_decodes K (?sl i)"
    unfolding fr by simp
  from decode_loop_full [OF this, of "[]" out]
  obtain new out1 where
    l: "decode_loop K ?b ?ind True True True True True ?is [] out = (Inr new, out1)"
    and q: "map is_decoded new = map (\<lambda>i. known_codes K (?sl i)) ?is"
      "map binarydata new = map ?sl ?is" "map number new = ?is" "set out \<subseteq> set out1"
      "\<forall>j \<in> set ?is. \<forall>w. expected_warning K j (?sl j) = Some w \<longrightarrow> w \<in> set out1"
    by auto
  have "Reader_decode K f True True True True True out =
          (Inr (f\<lparr>sfdu_list := new, Reader_is_decoded := True\<rparr>), out1)"
    using l by (simp add: Reader_decode_def)
  moreover have "map is_decoded new = map (known_codes K) (frames ?b ?ind)"
    using q(1) by (simp add: fr comp_def)
  moreover have "map binarydata new = frames ?b ?ind"
    using q(2) by (simp add: fr)
  moreover have "map number new = [0..<length (frames ?b ?ind)]"
    using q(3) by (simp add: fr)
  moreover have "\<forall>i < length (frames ?b ?ind). \<forall>w.
      expected_warning K i (frames ?b ?ind ! i) = Some w \<longrightarrow> w \<in> set out1"
    using q(5) by (simp add: fr)
  ultimately show ?thesis using q(4) by simp
qed

lemma count_decoded:
  assumes "map is_decoded sfdus = map P rs"
  shows "length (filter is_decoded sfdus) = length (filter P rs)"
proof -
  have "length (filter is_decoded sfdus) = length (filter id (map is_decoded sfdus))"
    by (simp add: filter_map comp_def)
  also have "\<dots> = length (filter id (map P rs))" by (simp add: assms)
  also have "\<dots> = length (filter P rs)" by (simp add: filter_map comp_def)
  finally show ?thesis .
qed

lemma length_filter_complement:
  "length (filter P xs) + length (filter (\<lambda>x. \<not> P x) xs) = length xs"
  by (induction xs) auto

section \<open>Buffers made of well-framed records\<close>

lemma chain_from_concat:
  "\<forall>r \<in> set rs. well_framed r \<Longrightarrow>
   chain_from (pre @ concat rs) (length pre) (ends (length pre) rs)"
proof (induction rs arbitrary: pre)
  case Nil
  then show ?case by simp
next
  case (Cons r rs)
  let ?L = "be_nat (py_slice r 12 20)"
  from Cons.prems have len: "length r = ?L + 20" and rest: "\<forall>x \<in> set rs. well_framed x"
    by (simp_all add: well_framed_def)
  have e: "length pre + ?L + 20 = length pre + length r"
    using len by simp
  have "chain_from (pre @ r @ concat rs) (length pre)
          ((length pre + length r) # ends (length pre + length r) rs) =
          (length pre + length r = length pre + ?L + 20 \<and>
           chain_from (pre @ r @ concat rs) (length pre + ?L + 20)
             (ends (length pre + length r) rs))"
    by (rule chain_from_record) (simp_all add: len)
  moreover have "chain_from ((pre @ r) @ concat rs) (length (pre @ r))
              (ends (length (pre @ r)) rs)"
    by (rule Cons.IH [OF rest])
  ultimately show ?case
    unfolding e by (simp del: chain_from.simps)
qed

lemma sfdu_index_concat:
  "\<forall>r \<in> set rs. well_framed r \<Longrightarrow> sfdu_index (concat rs) = Inr (offsets 0 rs)"
  using chain_from_concat [of rs "[]"]
  by (simp add: sfdu_index_chain boundary_chain_def offsets_def)

lemma frames_ends:
  "frames (pre @ concat rs) (length pre # ends (length pre) rs) = rs"
proof (induction rs arbitrary: pre)
  case Nil
  then show ?case by (simp add: frames_single)
next
  case (Cons r rs)
  have "frames (pre @ concat (r # rs)) (length pre # ends (length pre) (r # rs)) =
        py_slice (pre @ r @ concat rs) (length pre) (length pre + length r)
          # frames ((pre @ r) @ concat rs) (length (pre @ r) # ends (length (pre @ r)) rs)"
    by (simp add: frames_Cons2)
  also have "py_slice (pre @ r @ concat rs) (length pre) (length pre + length r) = r"
    by (simp add: py_slice_def)
  finally show ?case using Cons.IH [of "pre @ r"] by simp
qed

lemma frames_offsets: "frames (concat rs) (offsets 0 rs) = rs"
  using frames_ends [of "[]" rs] by (simp add: offsets_def)

section \<open>The stand-in decoders on the example records\<close>

lemma be_nat_zeros: "be_nat (replicate n 0 @ xs) = be_nat xs"
proof -
  have "foldl (\<lambda>acc x. acc * 256 + unat x) 0 (replicate n (0 :: byte)) = 0"
    by (induction n) simp_all
  then show ?thesis by (simp add: be_nat_def)
qed

lemma be_nat_zeros_last: "be_nat (replicate n 0 @ [x]) = unat x"
  by (simp add: be_nat_zeros) (simp add: be_nat_def)

lemma be_nat_single: "c < 256 \<Longrightarrow> be_nat [of_nat c] = c"
  by (simp add: be_nat_def unat_of_nat)

lemma be_nat_pair: "y < 65536 \<Longrightarrow> be_nat [of_nat (y div 256), of_nat y] = y"
proof -
  assume "y < 65536"
  then have "y div 256 < 256" by simp
  then have "unat (of_nat (y div 256) :: byte) = y div 256"
    by (simp add: unat_of_nat)
  moreover have "unat (of_nat y :: byte) = y mod 256"
    by (simp add: unat_of_nat)
  ultimately show ?thesis by (simp add: be_nat_def)
qed

lemma example_record_length: "length d = 4 \<Longrightarrow> length (example_record d c y doy s) = 72"
  by (simp add: example_record_def)

lemma example_record_slices:
  assumes "length d = 4"
  shows "py_slice (example_record d c y doy s) 8 12 = map (\<lambda>ch. of_nat (of_char ch)) d"
    and "py_slice (example_record d c y doy s) 12 20 = replicate 7 0 @ [52]"
    and "py_slice (example_record d c y doy s) 20 22 = replicate 2 0"
    and "py_slice (example_record d c y doy s) 22 24 = replicate 2 0"
    and "py_slice (example_record d c y doy s) 31 32 = [of_nat c]"
    and "py_slice (example_record d c y doy s) 39 40 = replicate 1 0"
    and "py_slice (example_record d c y doy s) 44 46 = [of_nat (y div 256), of_nat y]"
    and "py_slice (example_record d c y doy s) 46 48 = [of_nat (doy div 256), of_nat doy]"
    and "py_slice (example_record d c y doy s) 48 56 = replicate 6 0 @ [of_nat (s div 256), of_nat s]"
    and "py_slice (example_record d c y doy s) 56 58 = replicate 2 0"
    and "py_slice (example_record d c y doy s) 58 62 = replicate 4 0"
    and "py_slice (example_record d c y doy s) 62 66 = replicate 4 0"
    and "py_slice (example_record d c y doy s) 66 67 = [14]"
    and "py_slice (example_record d c y doy s) 67 68 = [2]"
    and "py_slice (example_record d c y doy s) 69 70 = [1]"
    and "py_slice (example_record d c y doy s) 70 71 = [0]"
    and "py_slice (example_record d c y doy s) 71 72 = [0]"
  using assms by (simp_all add: example_record_def py_slice_def)

lemma unat_byte_of_char: "unat (of_nat (of_char ch) :: byte) = of_char ch"
proof -
  have "unat (of_nat (of_char ch) :: byte) = of_char ch mod 256"
    by (simp add: unat_of_nat)
  then show ?thesis by simp
qed

lemma example_label_decode_record:
  "length d = 4 \<Longrightarrow>
   example_label_decode (example_record d c y doy s) =
     Inr \<lparr>data_description_id = d, sfdu_length = 52\<rparr>"
  by (simp add: example_label_decode_def example_record_length example_record_slices
        be_nat_zeros_last comp_def unat_byte_of_char)

lemma example_agg_decode_record:
  "length d = 4 \<Longrightarrow>
   example_agg_decode (example_record d c y doy s) =
     Inr (map_of [(''chdo_type'', 0), (''chdo_length'', 0)])"
  using be_nat_zeros [of 2 "[]"]
  by (simp add: example_agg_decode_def example_record_length example_record_slices be_nat_def)

lemma example_primary_decode_record:
  "length d = 4 \<Longrightarrow> c < 256 \<Longrightarrow>
   example_primary_decode (example_record d c y doy s) = Inr \<lparr>format_code = int c\<rparr>"
  by (simp add: example_primary_decode_def example_record_length example_record_slices
        be_nat_single)

lemma example_secondary_decode_record:
  assumes "length d = 4" "y < 65536" "doy < 65536" "s < 65536"
  shows "example_secondary_decode cls (example_record d c y doy s) =
           Inr (example_secondary_attrs cls (int y) (int doy) (int s))"
proof -
  have z: "be_nat (replicate n 0) = 0" for n
    using be_nat_zeros [of n "[]"] by (simp add: be_nat_def)
  have one: "be_nat [x] = unat x" for x
    by (simp add: be_nat_def)
  show ?thesis
    using assms
    by (simp add: example_secondary_decode_def example_secondary_attrs_def
          example_record_length example_record_slices be_nat_zeros be_nat_pair z one)
qed

lemma example_record_well_framed: "length d = 4 \<Longrightarrow> well_framed (example_record d c y doy s)"
  by (simp add: well_framed_def example_record_length example_record_slices
        be_nat_zeros_last)

section \<open>Reader.decode as a pass over the frames\<close>

lemma decode_loop_upt:
  "decode_loop K b ind lab agg pri sec trk [n..<m] sfdus out =
   decode_records K lab agg pri sec trk
     (map (\<lambda>i. py_slice b (ind ! i) (ind ! (i + 1))) [n..<m]) n sfdus out"
proof (induction "m - n" arbitrary: n sfdus out)
  case 0
  then show ?case by simp
next
  case (Suc k)
  then have lt: "n < m" and k: "k = m - Suc n" by simp_all
  have u: "[n..<m] = n # [Suc n..<m]"
    using lt by (simp add: upt_conv_Cons)
  show ?case
    unfolding u using Suc.hyps(1) [OF k]
    by (simp split: prod.splits sum.splits)
qed

lemma Reader_decode_frames:
  "Reader_decode K f lab agg pri sec trk out =
     (case decode_records K lab agg pri sec trk (frames (Reader_binarydata f) (index f)) 0 [] out of
        (Inl e, out1) \<Rightarrow> (Inl e, out1)
      | (Inr sfdus, out1) \<Rightarrow> (Inr (f\<lparr>sfdu_list := sfdus, Reader_is_decoded := True\<rparr>), out1))"
  by (simp add: Reader_decode_def frames_def decode_loop_upt)

lemmas example_decoders =
  example_label_decode_record example_agg_decode_record example_primary_decode_record
  example_secondary_decode_record

lemma example_components_fields:
  "SFDULabel_decode example_components = example_label_decode"
  "SFDUAggCHDO_decode example_components = example_agg_decode"
  "PrimaryCHDO_decode example_components = example_primary_decode"
  "SecondaryCHDO_decode example_components = example_secondary_decode"
  "TrackingCHDO_decode example_components = example_tracking_decode"
  "SFDULabel_new example_components = \<lparr>data_description_id = [], sfdu_length = 0\<rparr>"
  "SFDUAggCHDO_new example_components = Map.empty"
  "PrimaryCHDO_new example_components = \<lparr>format_code = 0\<rparr>"
  by (simp_all add: example_components_def)

lemma show_nat_digit: "n < 10 \<Longrightarrow> show_nat n = [digit_char n]"
  by (simp add: show_nat.simps [of n])

lemma example_stream_frames:
  "frames example_stream [0, 72, 144, 216] =
     [example_record ''C124'' 1 2024 100 3600, example_record ''XXXX'' 9 2024 100 3601,
      example_record ''C124'' 1 2024 100 3602]"
proof -
  have "offsets 0 [example_record ''C124'' 1 2024 100 3600,
                   example_record ''XXXX'' 9 2024 100 3601,
                   example_record ''C124'' 1 2024 100 3602] = [0, 72, 144, 216]"
    by (simp add: offsets_def example_record_length)
  then show ?thesis
    unfolding example_stream_def
    using frames_offsets [of "[example_record ''C124'' 1 2024 100 3600,
                   example_record ''XXXX'' 9 2024 100 3601,
                   example_record ''C124'' 1 2024 100 3602]"]
    by simp
qed

section \<open>Properties of the accessors\<close>

lemma getattr_Some: "h a = Some v \<Longrightarrow> getattr (Some h) a = Inr v"
  by (simp add: getattr_def)

lemma getattr_None: "getattr None a = Inl (AttributeError ''NoneType'' a)"
  by (simp add: getattr_def)

lemma getattr_error: "getattr obj a = Inl e \<Longrightarrow> \<exists>t. e = AttributeError t a"
  by (auto simp: getattr_def split: option.splits)

lemma bindE_Inr [simp]: "bindE (Inr v) f = f v"
  by (simp add: bindE_def)

lemma bindE_Inl [simp]: "bindE (Inl e) f = Inl e"
  by (simp add: bindE_def)

lemma bindE_eq_Inr: "(bindE m f = Inr y) = (\<exists>v. m = Inr v \<and> f v = Inr y)"
  by (cases m) simp_all

lemma days_before_year_bounds:
  assumes "1 \<le> y" "y \<le> 9999"
  shows "0 \<le> days_before_year y" "days_before_year y < 3652059"
proof -
  define k where "k = y - 1"
  have k: "0 \<le> k" "k \<le> 9998" using assms by (simp_all add: k_def)
  have a: "k div 100 \<le> k div 4"
    using k(1) by (intro zdiv_mono2) simp_all
  have b: "0 \<le> k div 400" "0 \<le> k div 100"
    using k(1) by (simp_all add: pos_imp_zdiv_nonneg_iff)
  have "k div 4 \<le> 9998 div 4" "k div 400 \<le> 9998 div 400"
    using k(2) by (intro zdiv_mono1; simp)+
  then have c: "k div 4 \<le> 2499" "k div 400 \<le> 24" by simp_all
  have d: "days_before_year y = 365 * k + k div 4 - k div 100 + k div 400"
    by (simp add: days_before_year_def k_def)
  show "0 \<le> days_before_year y" unfolding d using k a b by linarith
  show "days_before_year y < 3652059" unfolding d using k a b c by linarith
qed

lemma days_before_year_10000: "days_before_year 10000 = 3652059"
  by (simp add: days_before_year_def)

lemma timedelta_in_range:
  assumes "0 \<le> j" "j < 3652059 * 86400000000"
      and "0 \<le> j + td" "j + td < 3652059 * 86400000000"
  shows "\<bar>td div 86400000000\<bar> \<le> (999999999 :: int)"
proof -
  have "- (3652059 * 86400000000) \<le> td" "td \<le> 3652059 * 86400000000"
    using assms by linarith+
  then have "(- (3652059 * 86400000000)) div 86400000000 \<le> td div 86400000000"
    "td div 86400000000 \<le> (3652059 * 86400000000) div 86400000000"
    by (intro zdiv_mono1; simp)+
  then have "- 3652059 \<le> td div 86400000000" "td div 86400000000 \<le> 3652059"
    by simp_all
  then show ?thesis by linarith
qed

lemma timestamp_value:
  assumes "sec_chdo self = Some h" "h ''year'' = Some y" "h ''doy'' = Some d"
      and "h ''sec'' = Some s" "1 \<le> y" "y \<le> 9999"
      and "0 \<le> days_before_year y * usec_per_day + (d - 1) * usec_per_day + s * 1000000"
      and "days_before_year y * usec_per_day + (d - 1) * usec_per_day + s * 1000000
             < days_before_year 10000 * usec_per_day"
  shows "timestamp self =
           Inr (days_before_year y * usec_per_day + (d - 1) * usec_per_day + s * 1000000)"
proof -
  let ?j = "days_before_year y * 86400000000"
  let ?td = "((d - 1) * 86400 + s) * 1000 * 1000"
  have td: "?td = (d - 1) * 86400000000 + s * 1000000" by (simp add: algebra_simps)
  have j: "0 \<le> ?j" "?j < 3652059 * 86400000000"
    using days_before_year_bounds [OF assms(5,6)] by simp_all
  have r: "0 \<le> ?j + ?td" "?j + ?td < 3652059 * 86400000000"
    using assms(7,8) unfolding td usec_per_day_def days_before_year_10000
    by (simp_all add: algebra_simps)
  have "\<bar>?td div 86400000000\<bar> \<le> 999999999"
    using j r by (rule timedelta_in_range)
  then have t: "timedelta (d - 1) s 0 = Inr ?td"
    by (simp add: timedelta_def usec_per_day_def Let_def)
  have y: "datetime_jan1 y = Inr ?j"
    using assms(5,6) by (simp add: datetime_jan1_def usec_per_day_def)
  have a: "datetime_add ?j ?td = Inr (?j + ?td)"
    using r by (simp add: datetime_add_def usec_per_day_def days_before_year_10000)
  have "timestamp self = Inr (?j + ?td)"
    using assms(1-4) y t a by (simp add: timestamp_def getattr_Some)
  then show ?thesis
    unfolding td usec_per_day_def by (simp add: algebra_simps)
qed

lemma timestamp_bad_year:
  assumes "sec_chdo self = Some h" "h ''year'' = Some y" "\<not> (1 \<le> y \<and> y \<le> 9999)"
  shows "timestamp self = Inl ValueError \<or> timestamp self = Inl OverflowError"
  using assms by (auto simp: timestamp_def getattr_Some datetime_jan1_def)

lemma timestamp_no_secondary:
  "sec_chdo self = None \<Longrightarrow> timestamp self = Inl (AttributeError ''NoneType'' ''year'')"
  by (simp add: timestamp_def getattr_None)

lemma tracking_mode_value:
  assumes "data_description_id (label self) \<noteq> ''C123''" "sec_chdo self = Some h"
      and "h ''prdx_mode'' = Some m" "0 \<le> m" "m \<le> 4"
      and "m = 3 \<longrightarrow> h ''ul_prdx_stn'' = Some u"
  shows "tracking_mode self =
           Inr (Some (if m = 0 then ''None'' else if m = 1 then ''1W''
                      else if m = 2 then ''2W'' else if m = 3 then ''3W/'' @ show_int u
                      else ''Invalid''))"
proof -
  from assms(4,5) have "m = 0 \<or> m = 1 \<or> m = 2 \<or> m = 3 \<or> m = 4" by arith
  then show ?thesis
    using assms(1,2,3,6) by (auto simp: tracking_mode_def getattr_Some)
qed

lemma tracking_mode_uplink:
  "data_description_id (label self) = ''C123'' \<Longrightarrow> tracking_mode self = Inr (Some ''N/A'')"
  by (simp add: tracking_mode_def)

section \<open>What a successful decode returns\<close>

lemma SFDU_decode_Inr:
  assumes "SFDU_decode K self r lab agg pri sec trk out = (Inr s, out1)"
  shows "binarydata s = r" "number s = number self"
    "lab \<Longrightarrow> SFDULabel_decode K r = Inr (label s)"
    "pri \<Longrightarrow> PrimaryCHDO_decode K r = Inr (pri_chdo s)"
    "\<not> sec \<Longrightarrow> sec_chdo s = sec_chdo self"
    "sec \<Longrightarrow> data_description_id (label s) \<notin> set data_descriptions_keys \<Longrightarrow>
       sec_chdo s = sec_chdo self \<and> \<not> is_decoded s"
    "sec \<Longrightarrow> data_description_id (label s) \<in> set data_descriptions_keys \<Longrightarrow>
       \<exists>c h. select_sec_class (data_description_id (label s)) = Some c \<and>
             SecondaryCHDO_decode K c r = Inr h \<and> sec_chdo s = Some h"
    "\<not> trk \<Longrightarrow>
       is_decoded s = (sec \<longrightarrow> data_description_id (label s) \<in> set data_descriptions_keys)"
proof -
  from assms obtain h where h: "decode_headers K (self\<lparr>binarydata := r\<rparr>) lab agg pri = Inr h"
    by (auto simp: SFDU_decode_def split: sum.splits)
  note hh = decode_headers_Inr [OF h]
  obtain r2 o2 where s2: "decode_secondary K h sec out = (r2, o2)"
    by (cases "decode_secondary K h sec out")
  note c2 = decode_secondary_cases [OF s2]
  show "binarydata s = r" "number s = number self"
    "lab \<Longrightarrow> SFDULabel_decode K r = Inr (label s)"
    "pri \<Longrightarrow> PrimaryCHDO_decode K r = Inr (pri_chdo s)"
    "\<not> sec \<Longrightarrow> sec_chdo s = sec_chdo self"
    "sec \<Longrightarrow> data_description_id (label s) \<notin> set data_descriptions_keys \<Longrightarrow>
       sec_chdo s = sec_chdo self \<and> \<not> is_decoded s"
    "sec \<Longrightarrow> data_description_id (label s) \<in> set data_descriptions_keys \<Longrightarrow>
       \<exists>c h. select_sec_class (data_description_id (label s)) = Some c \<and>
             SecondaryCHDO_decode K c r = Inr h \<and> sec_chdo s = Some h"
    "\<not> trk \<Longrightarrow>
       is_decoded s = (sec \<longrightarrow> data_description_id (label s) \<in> set data_descriptions_keys)"
    using assms h hh s2 c2
    by (auto simp: SFDU_decode_def decode_tracking_def
             split: sum.splits option.splits outcome.splits if_splits
             dest: select_sec_class_Some)
qed

lemma decode_records_Inr:
  assumes "decode_records K lab agg pri sec trk rs n sfdus out = (Inr res, out1)"
  shows "\<exists>new. res = sfdus @ new \<and> length new = length rs \<and>
           (\<forall>k < length rs.
              fst (SFDU_decode K ((SFDU_new K)\<lparr>number := n + k\<rparr>) (rs ! k)
                     lab agg pri sec trk []) = Inr (new ! k))"
  using assms
proof (induction rs arbitrary: n sfdus out)
  case Nil
  then show ?case by simp
next
  case (Cons r rs)
  from Cons.prems obtain s o1 where
    s: "SFDU_decode K ((SFDU_new K)\<lparr>number := n\<rparr>) r lab agg pri sec trk out = (Inr s, o1)"
    and l: "decode_records K lab agg pri sec trk rs (Suc n) (sfdus @ [s]) o1 = (Inr res, out1)"
    by (auto split: prod.splits sum.splits)
  have s0: "fst (SFDU_decode K ((SFDU_new K)\<lparr>number := n\<rparr>) r lab agg pri sec trk []) = Inr s"
    using s SFDU_decode_fst_out [of K "(SFDU_new K)\<lparr>number := n\<rparr>" r lab agg pri sec trk out]
    by simp
  from Cons.IH [OF l] obtain new where
    n: "res = (sfdus @ [s]) @ new" "length new = length rs"
       "\<forall>k < length rs. fst (SFDU_decode K ((SFDU_new K)\<lparr>number := Suc n + k\<rparr>) (rs ! k)
                                lab agg pri sec trk []) = Inr (new ! k)"
    by blast
  have "\<forall>k < length (r # rs).
          fst (SFDU_decode K ((SFDU_new K)\<lparr>number := n + k\<rparr>) ((r # rs) ! k)
                 lab agg pri sec trk []) = Inr ((s # new) ! k)"
  proof (intro allI impI)
    fix k assume "k < length (r # rs)"
    then show "fst (SFDU_decode K ((SFDU_new K)\<lparr>number := n + k\<rparr>) ((r # rs) ! k)
                 lab agg pri sec trk []) = Inr ((s # new) ! k)"
      using s0 n(3) by (cases k) simp_all
  qed
  with n(1,2) show ?case
    by (intro exI [of _ "s # new"]) simp
qed

lemma Reader_decode_Inr:
  assumes "Reader_decode K f lab agg pri sec trk out = (Inr f1, out1)"
  shows "f1 = f\<lparr>sfdu_list := sfdu_list f1, Reader_is_decoded := True\<rparr>"
    "length (sfdu_list f1) = length (frames (Reader_binarydata f) (index f))"
    "\<And>k. k < length (frames (Reader_binarydata f) (index f)) \<Longrightarrow>
       fst (SFDU_decode K ((SFDU_new K)\<lparr>number := k\<rparr>)
              (frames (Reader_binarydata f) (index f) ! k) lab agg pri sec trk [])
         = Inr (sfdu_list f1 ! k)"
proof -
  from assms obtain res where
    d: "decode_records K lab agg pri sec trk (frames (Reader_binarydata f) (index f)) 0 [] out
          = (Inr res, out1)"
    and f1: "f1 = f\<lparr>sfdu_list := res, Reader_is_decoded := True\<rparr>"
    by (auto simp: Reader_decode_frames split: prod.splits sum.splits)
  from decode_records_Inr [OF d] f1
  show "f1 = f\<lparr>sfdu_list := sfdu_list f1, Reader_is_decoded := True\<rparr>"
    "length (sfdu_list f1) = length (frames (Reader_binarydata f) (index f))"
    "\<And>k. k < length (frames (Reader_binarydata f) (index f)) \<Longrightarrow>
       fst (SFDU_decode K ((SFDU_new K)\<lparr>number := k\<rparr>)
              (frames (Reader_binarydata f) (index f) ! k) lab agg pri sec trk [])
         = Inr (sfdu_list f1 ! k)"
    by auto
qed

lemma Reader_decode_record:
  assumes "Reader_decode K f lab agg pri sec trk out = (Inr f1, out1)"
      and "k < length (frames (Reader_binarydata f) (index f))"
  shows "\<exists>o1. SFDU_decode K ((SFDU_new K)\<lparr>number := k\<rparr>)
                (frames (Reader_binarydata f) (index f) ! k) lab agg pri sec trk []
              = (Inr (sfdu_list f1 ! k), o1)"
  using Reader_decode_Inr(3) [OF assms]
  by (cases "SFDU_decode K ((SFDU_new K)\<lparr>number := k\<rparr>)
                (frames (Reader_binarydata f) (index f) ! k) lab agg pri sec trk []") simp

lemma Reader_decode_binarydata:
  assumes "Reader_decode K f lab agg pri sec trk out = (Inr f1, out1)"
  shows "map binarydata (sfdu_list f1) = frames (Reader_binarydata f) (index f)"
proof (rule nth_equalityI)
  show "length (map binarydata (sfdu_list f1)) = length (frames (Reader_binarydata f) (index f))"
    using Reader_decode_Inr(2) [OF assms] by simp
next
  fix k assume "k < length (map binarydata (sfdu_list f1))"
  then have k: "k < length (frames (Reader_binarydata f) (index f))"
    using Reader_decode_Inr(2) [OF assms] by simp
  from Reader_decode_record [OF assms k] obtain o1 where
    "SFDU_decode K ((SFDU_new K)\<lparr>number := k\<rparr>)
       (frames (Reader_binarydata f) (index f) ! k) lab agg pri sec trk []
     = (Inr (sfdu_list f1 ! k), o1)" ..
  from SFDU_decode_Inr(1) [OF this] k Reader_decode_Inr(2) [OF assms]
  show "map binarydata (sfdu_list f1) ! k = frames (Reader_binarydata f) (index f) ! k"
    by simp
qed

section \<open>Properties of Info.get\_info\<close>

lemma mapE_Inl:
  "x \<in> set xs \<Longrightarrow> f x = Inl e \<Longrightarrow> \<exists>e'. mapE f xs = Inl e'"
  by (induction xs) (auto split: sum.splits)

lemma mapE_error_from:
  "mapE f xs = Inl e \<Longrightarrow> \<exists>x \<in> set xs. f x = Inl e"
  by (induction xs) (auto split: sum.splits)

lemma mapE_Inr:
  "mapE f xs = Inr ys \<Longrightarrow> length ys = length xs \<and> (\<forall>k < length xs. f (xs ! k) = Inr (ys ! k))"
proof (induction xs arbitrary: ys)
  case Nil
  then show ?case by simp
next
  case (Cons x xs)
  then obtain y ys' where y: "f x = Inr y" "mapE f xs = Inr ys'" "ys = y # ys'"
    by (auto split: sum.splits)
  from Cons.IH [OF y(2)] y(1,3) show ?case
    by (auto simp: nth_Cons split: nat.splits)
qed

lemma doppler_count_times_fails:
  assumes "x \<in> set sfdus" "format_code (pri_chdo x) = 16" "sec_chdo x = None"
  shows "\<exists>t. doppler_count_times sfdus = Inl (AttributeError t ''cnt_time'')"
proof -
  let ?g = "\<lambda>x. getattr (sec_chdo x) ''cnt_time''"
  let ?xs = "filter (\<lambda>x. format_code (pri_chdo x) = 16) sfdus"
  have m: "x \<in> set ?xs"
    using assms(1,2) by simp
  have g: "?g x = Inl (AttributeError ''NoneType'' ''cnt_time'')"
    using assms(3) by (simp add: getattr_None)
  from mapE_Inl [of x ?xs ?g, OF m g] obtain e where e': "mapE ?g ?xs = Inl e"
    by auto
  then have e: "doppler_count_times sfdus = Inl e"
    by (simp add: doppler_count_times_def)
  from mapE_error_from [OF e'] obtain z :: SFDU where "?g z = Inl e"
    by auto
  then obtain t where "e = AttributeError t ''cnt_time''"
    by (blast dest: getattr_error)
  with e show ?thesis by blast
qed

lemma get_info_Inr_doppler:
  "get_info self f = Inr i \<Longrightarrow> \<exists>cnt. doppler_count_times (sfdu_list f) = Inr cnt"
  by (auto simp: get_info_def Let_def bindE_eq_Inr split: prod.splits)

lemma get_info_fails:
  assumes "x \<in> set (sfdu_list f)" "format_code (pri_chdo x) = 16" "sec_chdo x = None"
  shows "\<exists>e. get_info self f = Inl e"
proof (cases "get_info self f")
  case (Inl e)
  then show ?thesis by blast
next
  case (Inr i)
  from get_info_Inr_doppler [OF Inr] doppler_count_times_fails [OF assms]
  show ?thesis by auto
qed

lemma Info_new_full_fails:
  assumes "\<not> Reader_is_decoded f" "r \<in> set (frames (Reader_binarydata f) (index f))"
      and "SFDULabel_decode K r = Inr l"
      and "data_description_id l \<notin> set data_descriptions_keys"
      and "PrimaryCHDO_decode K r = Inr p" "format_code p = 16"
  shows "\<exists>e out1. Info_new K f False out = (Inl e, out1)"
proof (cases "Reader_decode K f True True True True False out")
  case (Pair res out1)
  show ?thesis
  proof (cases res)
    case (Inl e)
    with Pair assms(1) show ?thesis by (simp add: Info_new_def)
  next
    case (Inr f1)
    with Pair have d: "Reader_decode K f True True True True False out = (Inr f1, out1)"
      by simp
    from assms(2) obtain k where k: "k < length (frames (Reader_binarydata f) (index f))"
      and rk: "frames (Reader_binarydata f) (index f) ! k = r"
      by (auto simp: in_set_conv_nth)
    from Reader_decode_record [OF d k] rk obtain o1 where
      s: "SFDU_decode K ((SFDU_new K)\<lparr>number := k\<rparr>) r True True True True False []
            = (Inr (sfdu_list f1 ! k), o1)"
      by auto
    let ?x = "sfdu_list f1 ! k"
    have "label ?x = l" "pri_chdo ?x = p"
      using SFDU_decode_Inr(3,4) [OF s] assms(3,5) by simp_all
    moreover from this have "sec_chdo ?x = None"
      using SFDU_decode_Inr(6) [OF s] assms(4) by (simp add: SFDU_new_def)
    moreover have "?x \<in> set (sfdu_list f1)"
      using k Reader_decode_Inr(2) [OF d] by simp
    ultimately obtain e where "get_info Info_initial f1 = Inl e"
      using get_info_fails [of ?x f1 Info_initial] assms(6) by auto
    with d assms(1) show ?thesis by (simp add: Info_new_def)
  qed
qed

text \<open>
  Claim C1. For every byte buffer, the list the framing indexer returns is the boundary list
  of the declared-length chain, and only that list: it starts at 0, each next boundary is the
  current boundary plus the big-endian length field at offset 12..20 of the current record
  plus 20, and it ends with the first boundary that reaches or exceeds the buffer length.
  For three records with declared lengths \<open>L1\<close>, \<open>L2\<close>, \<open>L3\<close> the list is
  \<open>[0, L1+20, L1+L2+40, L1+L2+L3+60]\<close>.
\<close>

theorem sfdu_index_is_declared_length_chain:
  "(sfdu_index b = Inr ind \<longleftrightarrow> boundary_chain b ind) \<and>
   (length r1 = L1 + 20 \<and> be_nat (py_slice r1 12 20) = L1 \<and>
    length r2 = L2 + 20 \<and> be_nat (py_slice r2 12 20) = L2 \<and>
    length r3 = L3 + 20 \<and> be_nat (py_slice r3 12 20) = L3 \<longrightarrow>
    sfdu_index (r1 @ r2 @ r3) = Inr [0, L1 + 20, L1 + L2 + 40, L1 + L2 + L3 + 60])"
  by (simp add: sfdu_index_chain three_records_chain)

theorem sfdu_index_is_declared_length_chain_witness:
  "sfdu_index ((replicate 19 0 @ [2, 7, 7]) @ (replicate 19 0 @ [0]) @ (replicate 19 0 @ [1, 9]))
     = Inr [0, 22, 42, 63]"
proof -
  have h: "length (replicate 19 0 @ [2, 7, 7 :: byte]) = 2 + 20 \<and>
           be_nat (py_slice (replicate 19 0 @ [2, 7, 7]) 12 20) = 2 \<and>
           length (replicate 19 0 @ [0 :: byte]) = 0 + 20 \<and>
           be_nat (py_slice (replicate 19 0 @ [0]) 12 20) = 0 \<and>
           length (replicate 19 0 @ [1, 9 :: byte]) = 1 + 20 \<and>
           be_nat (py_slice (replicate 19 0 @ [1, 9]) 12 20) = 1"
    by code_simp
  from sfdu_index_is_declared_length_chain
         [of "[]" "[]" "replicate 19 0 @ [2, 7, 7]" 2 "replicate 19 0 @ [0]" 0
             "replicate 19 0 @ [1, 9]" 1] h
  show ?thesis by simp
qed

text \<open>
  Claim C3, as the code has it. The indexer has no bound check: the loop ends as soon as a
  computed boundary reaches or exceeds the buffer length. On success the last boundary is at
  least the buffer length (not necessarily equal to it), the 20-byte label of every frame
  start lies within the buffer, and the frames cut by Python's clipping slices concatenate to
  exactly the buffer, so a record whose declared length overruns the buffer is accepted with
  its frame clipped at the buffer's end. The indexer fails only with \<^verbatim>\<open>struct.error\<close>, and only
  when no boundary chain exists, that is when fewer than 20 bytes follow a frame start.
\<close>

theorem sfdu_index_success_covers_buffer:
  "(sfdu_index b = Inr ind \<longrightarrow>
      ind \<noteq> [] \<and> hd ind = 0 \<and> length b \<le> last ind \<and>
      (\<forall>x \<in> set (butlast ind). x + 20 \<le> length b) \<and>
      concat (frames b ind) = b) \<and>
   (sfdu_index b = Inl e \<longrightarrow> e = StructError \<and> (\<forall>ind'. \<not> boundary_chain b ind'))"
proof (intro conjI impI)
  assume "sfdu_index b = Inl e"
  then show "e = StructError" by (rule sfdu_index_error)
  show "\<forall>ind'. \<not> boundary_chain b ind'"
    using \<open>sfdu_index b = Inl e\<close> sfdu_index_chain [of b] by auto
next
  assume "sfdu_index b = Inr ind"
  then have "boundary_chain b ind" by (simp add: sfdu_index_chain)
  then obtain rest where ind: "ind = 0 # rest" and ch: "chain_from b 0 rest"
    by (cases ind) (auto simp: boundary_chain_def)
  show "ind \<noteq> []" "hd ind = 0" by (simp_all add: ind)
  show "length b \<le> last ind"
    unfolding ind using ch by (rule chain_from_last)
  show "\<forall>x \<in> set (butlast ind). x + 20 \<le> length b"
    unfolding ind using ch by (blast intro: chain_from_headers)
  show "concat (frames b ind) = b"
    unfolding ind using concat_frames_chain [OF ch] by simp
qed

theorem sfdu_index_success_covers_buffer_witness:
  "sfdu_index (replicate 19 0 @ [5]) = Inr [0, 25] \<and>
   length (replicate 19 0 @ [5 :: byte]) \<le> last [0, 25] \<and>
   concat (frames (replicate 19 0 @ [5]) [0, 25]) = replicate 19 0 @ [5] \<and>
   sfdu_index [1, 2, 3, 4, 5] = Inl StructError"
proof -
  have a: "boundary_chain (replicate 19 0 @ [5]) [0, 25]"
    by code_simp
  then have b: "sfdu_index (replicate 19 0 @ [5]) = Inr [0, 25]"
    by (simp add: sfdu_index_chain)
  have c: "\<not> boundary_chain [1, 2, 3, 4, 5] ind'" for ind'
    by (cases ind'; cases "tl ind'") (auto simp: boundary_chain_def)
  then obtain e where d: "sfdu_index [1, 2, 3, 4, 5] = Inl e"
    using sfdu_index_chain [of "[1, 2, 3, 4, 5]"] by (cases "sfdu_index [1, 2, 3, 4, 5]") auto
  from sfdu_index_success_covers_buffer [of "replicate 19 0 @ [5]" "[0, 25]"] b
       sfdu_index_success_covers_buffer [of "[1, 2, 3, 4, 5]" "[]" e] d
  show ?thesis by simp
qed

text \<open>
  A 20-byte buffer whose only label declares 5 more bytes than the buffer holds: the chain is
  truncated, yet the indexer succeeds, its last boundary 25 is not the buffer length 20, and
  the single frame is the clipped 20 bytes.
\<close>

theorem sfdu_index_truncated_counterexample:
  "sfdu_index (replicate 19 0 @ [5]) = Inr [0, 25] \<and>
   last [0, 25 :: nat] \<noteq> length (replicate 19 0 @ [5 :: byte]) \<and>
   frames (replicate 19 0 @ [5]) [0, 25] = [replicate 19 0 @ [5]]"
proof -
  have "boundary_chain (replicate 19 0 @ [5]) [0, 25]"
    by code_simp
  then have "sfdu_index (replicate 19 0 @ [5]) = Inr [0, 25]"
    by (simp add: sfdu_index_chain)
  moreover have "frames (replicate 19 0 @ [5 :: byte]) [0, 25] = [replicate 19 0 @ [5]]"
    by (simp add: frames_def py_slice_def)
  ultimately show ?thesis by simp
qed

text \<open>
  Claim C4. A record whose data-description code is not one of C123..C127 (when the
  secondary stage is requested), or whose format code is not in 0..17 (when the tracking
  stage is reached), is returned by \<^verbatim>\<open>SFDU.decode\<close> without an exception, marked not decoded,
  with the diagnostic naming its sequence number and the offending code appended to the
  output; the stages after the unknown code are skipped and the header fields decoded before
  are those of the returned record. For a stream on whose frames no component decoder
  raises, \<^verbatim>\<open>Reader.decode\<close> returns one record per frame, the number of decoded ones being
  the number of frames less those with an unknown code (N - 1 for one such record), and the
  output holds the diagnostic of every such record.
\<close>

theorem unknown_code_record_is_skipped:
  "(decode_headers K (self\<lparr>binarydata := r\<rparr>) lab agg pri = Inr h \<and>
    data_description_id (label h) \<notin> {''C123'', ''C124'', ''C125'', ''C126'', ''C127''} \<longrightarrow>
      SFDU_decode K self r lab agg pri True trk out =
        (Inr (h\<lparr>is_decoded := False\<rparr>),
         out @ [''SFDU '' @ show_nat (number self) @ '': Warning: Unknown secondary CHDO type ''
                  @ data_description_id (label h) @ ''. Skipping...''])) \<and>
   (decode_headers K (self\<lparr>binarydata := r\<rparr>) lab agg pri = Inr h \<and>
    decode_secondary K h sec out = (Continue h', out1) \<and>
    \<not> (0 \<le> format_code (pri_chdo h') \<and> format_code (pri_chdo h') \<le> 17) \<longrightarrow>
      SFDU_decode K self r lab agg pri sec True out =
        (Inr (h'\<lparr>is_decoded := False\<rparr>),
         out1 @ [''SFDU '' @ show_nat (number self) @ '': Warning: Unknown tracking CHDO type ''
                   @ show_int (format_code (pri_chdo h')) @ ''. Skipping...''])) \<and>
   ((\<forall>x \<in> set (frames (Reader_binarydata f) (index f)). record_decodes K x) \<longrightarrow>
      (\<exists>f1 out2. Reader_decode K f True True True True True out = (Inr f1, out2) \<and>
         length (sfdu_list f1) = length (frames (Reader_binarydata f) (index f)) \<and>
         map binarydata (sfdu_list f1) = frames (Reader_binarydata f) (index f) \<and>
         length (filter is_decoded (sfdu_list f1)) =
           length (frames (Reader_binarydata f) (index f)) -
           length (filter (\<lambda>x. \<not> known_codes K x) (frames (Reader_binarydata f) (index f))) \<and>
         (\<forall>i < length (frames (Reader_binarydata f) (index f)). \<forall>w.
            expected_warning K i (frames (Reader_binarydata f) (index f) ! i) = Some w
              \<longrightarrow> w \<in> set out2)))"
proof (intro conjI impI)
  assume a: "decode_headers K (self\<lparr>binarydata := r\<rparr>) lab agg pri = Inr h \<and>
    data_description_id (label h) \<notin> {''C123'', ''C124'', ''C125'', ''C126'', ''C127''}"
  then have nk: "data_description_id (label h) \<notin> set data_descriptions_keys"
    by (simp add: data_descriptions_keys_def)
  from a have hd: "decode_headers K (self\<lparr>binarydata := r\<rparr>) lab agg pri = Inr h" by simp
  show "SFDU_decode K self r lab agg pri True trk out =
        (Inr (h\<lparr>is_decoded := False\<rparr>),
         out @ [''SFDU '' @ show_nat (number self) @ '': Warning: Unknown secondary CHDO type ''
                  @ data_description_id (label h) @ ''. Skipping...''])"
    using SFDU_decode_unknown_secondary [OF hd nk, of trk out]
    by (simp add: unknown_secondary_warning_def)
next
  assume a: "decode_headers K (self\<lparr>binarydata := r\<rparr>) lab agg pri = Inr h \<and>
    decode_secondary K h sec out = (Continue h', out1) \<and>
    \<not> (0 \<le> format_code (pri_chdo h') \<and> format_code (pri_chdo h') \<le> 17)"
  then have nk: "format_code (pri_chdo h') \<notin> set format_codes_keys"
    by (simp add: format_codes_keys_iff)
  from a have hd: "decode_headers K (self\<lparr>binarydata := r\<rparr>) lab agg pri = Inr h"
    and sc: "decode_secondary K h sec out = (Continue h', out1)" by simp_all
  show "SFDU_decode K self r lab agg pri sec True out =
        (Inr (h'\<lparr>is_decoded := False\<rparr>),
         out1 @ [''SFDU '' @ show_nat (number self) @ '': Warning: Unknown tracking CHDO type ''
                   @ show_int (format_code (pri_chdo h')) @ ''. Skipping...''])"
    using SFDU_decode_unknown_tracking [OF hd sc nk]
    by (simp add: unknown_tracking_warning_def)
next
  let ?rs = "frames (Reader_binarydata f) (index f)"
  assume "\<forall>x \<in> set ?rs. record_decodes K x"
  from Reader_decode_full [OF this, of out]
  obtain f1 out2 where
    d: "Reader_decode K f True True True True True out = (Inr f1, out2)"
    and m: "map is_decoded (sfdu_list f1) = map (known_codes K) ?rs"
    and b: "map binarydata (sfdu_list f1) = ?rs"
    and w: "\<forall>i < length ?rs. \<forall>w. expected_warning K i (?rs ! i) = Some w \<longrightarrow> w \<in> set out2"
    by blast
  have len: "length (sfdu_list f1) = length ?rs"
    using b by (metis length_map)
  have "length (filter is_decoded (sfdu_list f1)) = length (filter (known_codes K) ?rs)"
    using m by (rule count_decoded)
  also have "\<dots> = length ?rs - length (filter (\<lambda>x. \<not> known_codes K x) ?rs)"
    using length_filter_complement [of "known_codes K" ?rs] by simp
  finally show "\<exists>f1 out2. Reader_decode K f True True True True True out = (Inr f1, out2) \<and>
         length (sfdu_list f1) = length ?rs \<and>
         map binarydata (sfdu_list f1) = ?rs \<and>
         length (filter is_decoded (sfdu_list f1)) =
           length ?rs - length (filter (\<lambda>x. \<not> known_codes K x) ?rs) \<and>
         (\<forall>i < length ?rs. \<forall>w. expected_warning K i (?rs ! i) = Some w \<longrightarrow> w \<in> set out2)"
    using d len b w by blast
qed

theorem unknown_code_record_is_skipped_witness:
  "\<exists>f1 out2. Reader_decode example_components example_reader True True True True True []
                = (Inr f1, out2) \<and>
     length (sfdu_list f1) = 3 \<and> length (filter is_decoded (sfdu_list f1)) = 2 \<and>
     ''SFDU 1: Warning: Unknown secondary CHDO type XXXX. Skipping...'' \<in> set out2"
proof -
  let ?K = example_components
  let ?rs = "frames (Reader_binarydata example_reader) (index example_reader)"
  have fr: "?rs = [example_record ''C124'' 1 2024 100 3600,
                   example_record ''XXXX'' 9 2024 100 3601,
                   example_record ''C124'' 1 2024 100 3602]"
    by (simp add: example_reader_def example_stream_frames)
  have dec: "\<forall>x \<in> set ?rs. record_decodes ?K x"
    unfolding fr
    by (simp add: record_decodes_def example_components_fields example_decoders
          select_sec_class_def select_trk_class_def example_tracking_decode_def)
  have cnt: "length (filter (\<lambda>x. \<not> known_codes ?K x) ?rs) = 1"
    unfolding fr
    by (simp add: known_codes_def example_components_fields example_decoders
          data_descriptions_keys_def format_codes_keys_iff)
  have warn: "expected_warning ?K 1 (?rs ! 1) =
                Some ''SFDU 1: Warning: Unknown secondary CHDO type XXXX. Skipping...''"
    unfolding fr
    by (simp add: expected_warning_def example_components_fields example_decoders
          data_descriptions_keys_def unknown_secondary_warning_def show_nat_digit
          digit_char_def)
  from unknown_code_record_is_skipped
         [where K = ?K and f = example_reader and out = "[]"]
       dec
  obtain f1 out2 where
    r: "Reader_decode ?K example_reader True True True True True [] = (Inr f1, out2)"
       "length (sfdu_list f1) = length ?rs"
       "length (filter is_decoded (sfdu_list f1)) =
          length ?rs - length (filter (\<lambda>x. \<not> known_codes ?K x) ?rs)"
       "\<forall>i < length ?rs. \<forall>w. expected_warning ?K i (?rs ! i) = Some w \<longrightarrow> w \<in> set out2"
    by blast
  have len: "length ?rs = 3" unfolding fr by simp
  have "''SFDU 1: Warning: Unknown secondary CHDO type XXXX. Skipping...'' \<in> set out2"
    using r(4) [rule_format, of 1, OF _ warn] len by simp
  with r(1,2,3) cnt len show ?thesis
    by (intro exI [of _ f1] exI [of _ out2]) simp
qed

text \<open>
  Claim C8, as the code has it. For a record whose secondary header is present with a year
  in 1..9999 and whose time lies in the range of \<^verbatim>\<open>datetime\<close>, \<^verbatim>\<open>timestamp\<close> returns the
  first of January of that year plus (day of year - 1) days plus the seconds of day; for a
  year outside 1..9999 the \<^verbatim>\<open>datetime\<close> constructor raises (ValueError, or OverflowError
  beyond a C int). For a record without a secondary header, \<^verbatim>\<open>timestamp\<close> raises the
  AttributeError of reading \<^verbatim>\<open>year\<close> on \<^verbatim>\<open>None\<close>; it returns no value.
\<close>

theorem timestamp_of_secondary_header:
  "(sec_chdo self = Some h \<and> h ''year'' = Some y \<and> h ''doy'' = Some d \<and> h ''sec'' = Some s \<and>
    1 \<le> y \<and> y \<le> 9999 \<and>
    0 \<le> days_before_year y * usec_per_day + (d - 1) * usec_per_day + s * 1000000 \<and>
    days_before_year y * usec_per_day + (d - 1) * usec_per_day + s * 1000000
      < days_before_year 10000 * usec_per_day \<longrightarrow>
      timestamp self =
        Inr (days_before_year y * usec_per_day + (d - 1) * usec_per_day + s * 1000000)) \<and>
   (sec_chdo self = Some h \<and> h ''year'' = Some y \<and> \<not> (1 \<le> y \<and> y \<le> 9999) \<longrightarrow>
      timestamp self = Inl ValueError \<or> timestamp self = Inl OverflowError) \<and>
   (sec_chdo self = None \<longrightarrow> timestamp self = Inl (AttributeError ''NoneType'' ''year''))"
  using timestamp_value [of self h y d s] timestamp_bad_year [of self h y]
    timestamp_no_secondary [of self]
  by blast

theorem timestamp_of_secondary_header_witness:
  "timestamp ((SFDU_new example_components)
      \<lparr>sec_chdo := Some (example_secondary_attrs DownlinkCHDO 2024 100 3600)\<rparr>)
     = Inr 63848221200000000 \<and>
   timestamp (SFDU_new example_components) = Inl (AttributeError ''NoneType'' ''year'')"
proof -
  let ?s = "(SFDU_new example_components)
      \<lparr>sec_chdo := Some (example_secondary_attrs DownlinkCHDO 2024 100 3600)\<rparr>"
  have a: "sec_chdo ?s = Some (example_secondary_attrs DownlinkCHDO 2024 100 3600)"
    by simp
  have b: "example_secondary_attrs DownlinkCHDO 2024 100 3600 ''year'' = Some 2024"
    "example_secondary_attrs DownlinkCHDO 2024 100 3600 ''doy'' = Some 100"
    "example_secondary_attrs DownlinkCHDO 2024 100 3600 ''sec'' = Some 3600"
    by (simp_all add: example_secondary_attrs_def)
  have c: "sec_chdo (SFDU_new example_components) = None"
    by (simp add: SFDU_new_def)
  have v: "days_before_year 2024 * usec_per_day + (100 - 1) * usec_per_day + 3600 * 1000000
             = 63848221200000000"
    by (simp add: days_before_year_def usec_per_day_def)
  from timestamp_of_secondary_header
         [of ?s "example_secondary_attrs DownlinkCHDO 2024 100 3600" 2024 100 3600] a b
       timestamp_of_secondary_header [of "SFDU_new example_components"] c
  show ?thesis
    unfolding v by (simp add: days_before_year_def usec_per_day_def)
qed

text \<open>
  A record whose secondary header is present and carries the year 0: \<^verbatim>\<open>timestamp\<close> does not
  return a time, the \<^verbatim>\<open>datetime\<close> constructor raises ValueError.
\<close>

theorem timestamp_year_zero_counterexample:
  "sec_chdo ((SFDU_new example_components)
      \<lparr>sec_chdo := Some (example_secondary_attrs DownlinkCHDO 0 1 0)\<rparr>)
     = Some (example_secondary_attrs DownlinkCHDO 0 1 0) \<and>
   timestamp ((SFDU_new example_components)
      \<lparr>sec_chdo := Some (example_secondary_attrs DownlinkCHDO 0 1 0)\<rparr>) = Inl ValueError"
  by (simp add: timestamp_def getattr_def example_secondary_attrs_def datetime_jan1_def)

text \<open>
  Claim C9. For a record whose data-description code is not C123, whose secondary header is
  present and carries a mode code in 0..4 (and, for mode 3, the uplink station number),
  \<^verbatim>\<open>tracking_mode\<close> returns the label of the mapping 0: None, 1: 1W, 2: 2W,
  3: 3W/station number, 4: Invalid; for a record whose code is C123 (the Uplink variant) it
  returns N/A.
\<close>

theorem tracking_mode_labels:
  "(data_description_id (label self) \<noteq> ''C123'' \<and> sec_chdo self = Some h \<and>
    h ''prdx_mode'' = Some m \<and> 0 \<le> m \<and> m \<le> 4 \<and> (m = 3 \<longrightarrow> h ''ul_prdx_stn'' = Some u) \<longrightarrow>
      tracking_mode self =
        Inr (Some (if m = 0 then ''None'' else if m = 1 then ''1W''
                   else if m = 2 then ''2W'' else if m = 3 then ''3W/'' @ show_int u
                   else ''Invalid''))) \<and>
   (data_description_id (label self) = ''C123'' \<longrightarrow> tracking_mode self = Inr (Some ''N/A''))"
  using tracking_mode_value [of self h m u] tracking_mode_uplink [of self]
  by blast

theorem tracking_mode_labels_witness:
  "tracking_mode ((SFDU_new example_components)
      \<lparr>label := \<lparr>data_description_id = ''C124'', sfdu_length = 52\<rparr>,
       sec_chdo := Some (map_of [(''prdx_mode'', 3), (''ul_prdx_stn'', 14)])\<rparr>)
     = Inr (Some ''3W/14'') \<and>
   tracking_mode ((SFDU_new example_components)
      \<lparr>label := \<lparr>data_description_id = ''C123'', sfdu_length = 52\<rparr>\<rparr>)
     = Inr (Some ''N/A'')"
proof -
  let ?a = "(SFDU_new example_components)
      \<lparr>label := \<lparr>data_description_id = ''C124'', sfdu_length = 52\<rparr>,
       sec_chdo := Some (map_of [(''prdx_mode'', 3), (''ul_prdx_stn'', 14)])\<rparr>"
  let ?b = "(SFDU_new example_components)
      \<lparr>label := \<lparr>data_description_id = ''C123'', sfdu_length = 52\<rparr>\<rparr>"
  have s: "show_int 14 = ''14''"
    by (simp add: show_int_def show_nat.simps [of 14] show_nat_digit digit_char_def)
  from tracking_mode_labels
         [of ?a "map_of [(''prdx_mode'', 3), (''ul_prdx_stn'', 14)]" 3 14]
       tracking_mode_labels [of ?b]
  show ?thesis by (simp add: s)
qed

text \<open>
  Claim C10. When the record list holds a record with format code 16 whose secondary header
  is absent, the last statement of \<^verbatim>\<open>Info.get_info\<close>, which collects the Doppler count
  times, raises the AttributeError of reading \<^verbatim>\<open>cnt_time\<close>, and \<^verbatim>\<open>get_info\<close> raises instead
  of returning a summary. Such a record arises on the full path from a frame whose label
  carries an unknown data-description code and whose primary header carries format code
  16: the full aggregation of a reader that holds such a frame raises.
\<close>

theorem get_info_needs_secondary_for_code_16:
  "(x \<in> set (sfdu_list f) \<and> format_code (pri_chdo x) = 16 \<and> sec_chdo x = None \<longrightarrow>
      (\<exists>t. doppler_count_times (sfdu_list f) = Inl (AttributeError t ''cnt_time'')) \<and>
      (\<exists>e. get_info self f = Inl e)) \<and>
   (\<not> Reader_is_decoded g \<and> r \<in> set (frames (Reader_binarydata g) (index g)) \<and>
    SFDULabel_decode K r = Inr l \<and>
    data_description_id l \<notin> {''C123'', ''C124'', ''C125'', ''C126'', ''C127''} \<and>
    PrimaryCHDO_decode K r = Inr p \<and> format_code p = 16 \<longrightarrow>
      (\<exists>e out1. Info_new K g False out = (Inl e, out1)))"
proof (intro conjI impI)
  assume a: "x \<in> set (sfdu_list f) \<and> format_code (pri_chdo x) = 16 \<and> sec_chdo x = None"
  then show "\<exists>t. doppler_count_times (sfdu_list f) = Inl (AttributeError t ''cnt_time'')"
    using doppler_count_times_fails [of x "sfdu_list f"] by blast
  from a show "\<exists>e. get_info self f = Inl e"
    using get_info_fails [of x f self] by blast
next
  assume a: "\<not> Reader_is_decoded g \<and> r \<in> set (frames (Reader_binarydata g) (index g)) \<and>
    SFDULabel_decode K r = Inr l \<and>
    data_description_id l \<notin> {''C123'', ''C124'', ''C125'', ''C126'', ''C127''} \<and>
    PrimaryCHDO_decode K r = Inr p \<and> format_code p = 16"
  then have "data_description_id l \<notin> set data_descriptions_keys"
    by (simp add: data_descriptions_keys_def)
  with a show "\<exists>e out1. Info_new K g False out = (Inl e, out1)"
    using Info_new_full_fails [of g r K l p out] by blast
qed

theorem get_info_needs_secondary_for_code_16_witness:
  "(\<exists>t. doppler_count_times (sfdu_list example_decoded_reader)
          = Inl (AttributeError t ''cnt_time'')) \<and>
   (\<exists>e. get_info Info_initial example_decoded_reader = Inl e) \<and>
   (\<exists>e out1. Info_new example_components
                (example_decoded_reader\<lparr>sfdu_list := [], Reader_is_decoded := False\<rparr>) False []
              = (Inl e, out1)) \<and>
   get_info Info_initial example_decoded_reader = Inl (AttributeError ''NoneType'' ''cnt_time'')"
proof -
  let ?g = "example_decoded_reader\<lparr>sfdu_list := [], Reader_is_decoded := False\<rparr>"
  let ?r = "example_record ''XXXX'' 16 2024 100 3601"
  have a: "example_sfdu_skipped \<in> set (sfdu_list example_decoded_reader) \<and>
           format_code (pri_chdo example_sfdu_skipped) = 16 \<and>
           sec_chdo example_sfdu_skipped = None"
    by (simp add: example_decoded_reader_def example_sfdu_skipped_def)
  have "offsets 0 [example_record ''C124'' 1 2024 100 3600, ?r] = [0, 72, 144]"
    by (simp add: offsets_def example_record_length)
  then have fr: "frames (Reader_binarydata ?g) (index ?g)
                   = [example_record ''C124'' 1 2024 100 3600, ?r]"
    using frames_offsets [of "[example_record ''C124'' 1 2024 100 3600, ?r]"]
    by (simp add: example_decoded_reader_def)
  have b: "\<not> Reader_is_decoded ?g \<and> ?r \<in> set (frames (Reader_binarydata ?g) (index ?g)) \<and>
    SFDULabel_decode example_components ?r
      = Inr \<lparr>data_description_id = ''XXXX'', sfdu_length = 52\<rparr> \<and>
    data_description_id \<lparr>data_description_id = ''XXXX'', sfdu_length = 52\<rparr>
      \<notin> {''C123'', ''C124'', ''C125'', ''C126'', ''C127''} \<and>
    PrimaryCHDO_decode example_components ?r = Inr \<lparr>format_code = 16\<rparr> \<and>
    format_code \<lparr>format_code = 16\<rparr> = 16"
    unfolding fr by (simp add: example_components_fields example_decoders)
  have c: "get_info Info_initial example_decoded_reader
             = Inl (AttributeError ''NoneType'' ''cnt_time'')"
    by (simp add: get_info_def example_decoded_reader_def example_sfdu_decoded_def
          example_sfdu_skipped_def timestamp_def last_modified_def tracking_mode_def
          getattr_def example_secondary_attrs_def datetime_jan1_def timedelta_def
          datetime_add_def days_before_year_def usec_per_day_def py_min_def py_max_def
          lookup_bands_def bands_def doppler_count_times_def Let_def)
  from get_info_needs_secondary_for_code_16
         [where x = example_sfdu_skipped and f = example_decoded_reader and self = Info_initial
            and g = ?g and r = ?r and K = example_components
            and l = "\<lparr>data_description_id = ''XXXX'', sfdu_length = 52\<rparr>"
            and p = "\<lparr>format_code = 16\<rparr>" and out = "[]"]
       a b c
  show ?thesis by blast
qed

end
